theory Spec2Isabelle
  imports Complex_Main
begin

section \<open>JavaScript values\<close>

text \<open>
  The component of \<^verbatim>\<open>src/pages/ClientIsoCardWatcher.tsx\<close> works on untyped values: whatever
  \<^verbatim>\<open>JSON.parse\<close> returns for a socket message, and the object literals the code builds from
  them. A value is modelled as a \<open>jsval\<close>. A number is a real, one of the two infinities
  (\<^verbatim>\<open>JSON.parse\<close> gives them for a literal beyond the range of a double, as \<^verbatim>\<open>1e400\<close>), or
  NaN (which the engine's arithmetic can produce). The two zeros are not told apart.

  An object is the list of its property definitions in the order they were made, and the
  last definition of a key is the property's value. So the literal \<^verbatim>\<open>{ ...a, k: v }\<close> is the
  list of \<open>a\<close> followed by \<open>(k, v)\<close>, and \<^verbatim>\<open>{ ...a, ...b }\<close> is \<open>a @ b\<close>. For a parsed JSON
  object the list is its members in the order \<^verbatim>\<open>Object.keys\<close> enumerates them.
  \<open>JUndefined\<close> is the value of a property that was defined with the value
  \<^verbatim>\<open>undefined\<close>, and the result of reading a property that does not exist.
\<close>

datatype jsval =
    JUndefined
  | JNull
  | JBool bool
  | JNum real
  | JInfinity
  | JNegInfinity
  | JNaN
  | JStr string
  | JArr "jsval list"
  | JObj "(string \<times> jsval) list"

type_synonym props = "(string \<times> jsval) list"

text \<open>Truthiness: \<^verbatim>\<open>if (v)\<close>, \<^verbatim>\<open>!v\<close>, \<^verbatim>\<open>a || b\<close>, \<^verbatim>\<open>a && b\<close>.\<close>

fun truthy :: "jsval \<Rightarrow> bool" where
  "truthy JUndefined = False"
| "truthy JNull = False"
| "truthy (JBool b) = b"
| "truthy (JNum r) = (r \<noteq> 0)"
| "truthy JInfinity = True"
| "truthy JNegInfinity = True"
| "truthy JNaN = False"
| "truthy (JStr s) = (s \<noteq> [])"
| "truthy (JArr xs) = True"
| "truthy (JObj kvs) = True"

text \<open>\<^verbatim>\<open>v == null\<close>: the value is null or undefined.\<close>

fun nullish :: "jsval \<Rightarrow> bool" where
  "nullish JUndefined = True"
| "nullish JNull = True"
| "nullish v = False"

text \<open>\<^verbatim>\<open>a ?? b\<close> and \<^verbatim>\<open>a || b\<close>.\<close>

definition coalesce :: "jsval \<Rightarrow> jsval \<Rightarrow> jsval" where
  "coalesce a b = (if nullish a then b else a)"

definition js_or :: "jsval \<Rightarrow> jsval \<Rightarrow> jsval" where
  "js_or a b = (if truthy a then a else b)"

text \<open>
  The SameValueZero comparison of \<^verbatim>\<open>Map\<close> keys, and \<^verbatim>\<open>a === b\<close>. Primitive values are
  compared by value. Arrays and objects are compared by reference: the two sides of every
  comparison of the component come from different sources (a fresh parse result, the
  scene, a literal of the code), so an array or an object is equal to nothing. NaN is
  the same key as itself, and strictly equal to nothing.
\<close>

fun primitive :: "jsval \<Rightarrow> bool" where
  "primitive (JArr xs) = False"
| "primitive (JObj kvs) = False"
| "primitive v = True"

definition sameValueZero :: "jsval \<Rightarrow> jsval \<Rightarrow> bool" where
  "sameValueZero a b = (primitive a \<and> a = b)"

definition strictEq :: "jsval \<Rightarrow> jsval \<Rightarrow> bool" where
  "strictEq a b = (primitive a \<and> a \<noteq> JNaN \<and> a = b)"

subsection \<open>Decimal numerals\<close>

definition digit :: "nat \<Rightarrow> char" where
  "digit d = ''0123456789'' ! d"

function string_of_nat :: "nat \<Rightarrow> string" where
  "string_of_nat n = (if n < 10 then [digit n] else string_of_nat (n div 10) @ [digit (n mod 10)])"
  by pat_completeness auto
termination
  by (relation "measure id") auto

declare string_of_nat.simps [simp del]

subsection \<open>Property access\<close>

text \<open>The own property \<open>k\<close> of an object: its last definition.\<close>

definition own :: "props \<Rightarrow> string \<Rightarrow> jsval option" where
  "own kvs k = map_of (rev kvs) k"

definition field :: "props \<Rightarrow> string \<Rightarrow> jsval" where
  "field kvs k = (case own kvs k of Some v \<Rightarrow> v | None \<Rightarrow> JUndefined)"

text \<open>
  The index of a character or an element, as a property key: \<open>''0''\<close>, \<open>''1''\<close>, ...
\<close>

fun indexed :: "nat \<Rightarrow> jsval list \<Rightarrow> props" where
  "indexed i [] = []"
| "indexed i (v # vs) = (string_of_nat i, v) # indexed (Suc i) vs"

definition chars :: "string \<Rightarrow> jsval list" where
  "chars s = map (\<lambda>c. JStr [c]) s"

text \<open>
  \<^verbatim>\<open>v.k\<close> and \<^verbatim>\<open>v?.k\<close> for the keys the component reads. Reading a property of a number
  or a boolean gives undefined; an array and a string have a length and their indices.
  On null and undefined, \<^verbatim>\<open>v?.k\<close> is undefined; \<^verbatim>\<open>v.k\<close> throws there, which the callers
  below write out where the source can reach it.
\<close>

fun getProp :: "jsval \<Rightarrow> string \<Rightarrow> jsval" where
  "getProp (JObj kvs) k = field kvs k"
| "getProp (JArr xs) k =
     (if k = ''length'' then JNum (real (length xs)) else field (indexed 0 xs) k)"
| "getProp (JStr s) k =
     (if k = ''length'' then JNum (real (length s)) else field (indexed 0 (chars s)) k)"
| "getProp v k = JUndefined"

text \<open>\<^verbatim>\<open>v[i]\<close> for a literal index \<open>i\<close>.\<close>

definition getIdx :: "jsval \<Rightarrow> nat \<Rightarrow> jsval" where
  "getIdx v i = getProp v (string_of_nat i)"

text \<open>
  The own enumerable properties a spread \<^verbatim>\<open>{ ...v }\<close> copies: those of an object, the
  elements of an array, the characters of a string, and nothing for any other value.
\<close>

fun spread :: "jsval \<Rightarrow> props" where
  "spread (JObj kvs) = kvs"
| "spread (JArr xs) = indexed 0 xs"
| "spread (JStr s) = indexed 0 (chars s)"
| "spread v = []"

text \<open>\<^verbatim>\<open>Object.keys\<close>: every key once, in the order of its first definition.\<close>

fun firstKeys :: "string list \<Rightarrow> string list \<Rightarrow> string list" where
  "firstKeys seen [] = []"
| "firstKeys seen (k # ks) =
     (if k \<in> set seen then firstKeys seen ks else k # firstKeys (k # seen) ks)"

definition objectKeys :: "jsval \<Rightarrow> string list" where
  "objectKeys v = firstKeys [] (map fst (spread v))"

section \<open>The environment\<close>

text \<open>
  Exceptions carry a name and a message. \<^verbatim>\<open>e?.message || e\<close>, appended to a string, is
  the message, or what \<^verbatim>\<open>Error.prototype.toString\<close> gives when the message is empty.
\<close>

datatype exn = Exn (ename: string) (emessage: string)

definition errText :: "exn \<Rightarrow> string" where
  "errText e = (if emessage e \<noteq> [] then emessage e else ename e)"

section \<open>The log\<close>

text \<open>
  \<^verbatim>\<open>log = (m) => this.setState((s) => ({ log: [...s.log, `${new Date().toISOString()} - ${m}`].slice(-400) }))\<close>
  (the separator is an em dash between two spaces, written here as its UTF-8 bytes).
  The timestamp is what the clock returns at the call, an input of the model.
\<close>

definition emDash :: string where
  "emDash = [CHR 0x20, CHR 0xE2, CHR 0x80, CHR 0x94, CHR 0x20]"

text \<open>\<^verbatim>\<open>xs.slice(-n)\<close>: the last \<open>n\<close> elements, all of them when there are fewer.\<close>

definition sliceLast :: "nat \<Rightarrow> 'a list \<Rightarrow> 'a list" where
  "sliceLast n xs = drop (length xs - n) xs"

definition logLine :: "string \<Rightarrow> string \<Rightarrow> string" where
  "logLine stamp m = stamp @ emDash @ m"

definition appendLog :: "string \<Rightarrow> string \<Rightarrow> string list \<Rightarrow> string list" where
  "appendLog stamp m lines = sliceLast 400 (lines @ [logLine stamp m])"


section \<open>The scene, the IsoCard instance and the component\<close>

text \<open>
  The rendering engine's objects live in a store, addressed by \<open>addr\<close>: the object index,
  the scene graph and the IsoCard object list all refer to the same objects. Of an
  \<^verbatim>\<open>Object3D\<close> the model keeps the fields the component reads or writes. The components of
  a position and of a quaternion are the values the code stored there; \<open>userData\<close> is an
  object (the engine creates it as \<^verbatim>\<open>{}\<close>).
\<close>

type_synonym addr = nat
type_synonym vec3 = "jsval \<times> jsval \<times> jsval"
type_synonym quat = "jsval \<times> jsval \<times> jsval \<times> jsval"

record object3d =
  name :: string
  type3d :: string
  parent :: "addr option"
  position :: vec3
  quaternion :: quat
  userData :: props
  matrixWorldNeedsUpdate :: bool
  matrixAutoUpdate :: bool

text \<open>
  An element of \<^verbatim>\<open>iso.objects\<close>: its \<^verbatim>\<open>id\<close>, its \<^verbatim>\<open>threeObj\<close> and \<^verbatim>\<open>obj\<close> (absent or an
  object), the entry itself (\<open>self\<close>: the source takes it for the object when it has
  neither), and its \<^verbatim>\<open>config\<close>.
\<close>

record entry =
  entryId :: jsval
  threeObj :: "addr option"
  obj :: "addr option"
  self :: addr
  config :: jsval

text \<open>
  The IsoCard instance: the three fields \<open>getThreeScene\<close> tries, each absent or a scene, and
  \<^verbatim>\<open>objects\<close>, absent or a list. A scene is the list of its objects in the order
  \<^verbatim>\<open>traverse\<close> visits them (the scene itself first, then every descendant, depth first);
  \<^verbatim>\<open>getObjectByName\<close> searches in the same order.
\<close>

record isocard =
  scene :: "addr list option"
  rootScene :: "addr list option"
  threeScene :: "addr list option"
  objects :: "entry list option"

type_synonym store = "addr \<Rightarrow> object3d"
type_synonym world = "store \<times> isocard"

text \<open>
  What the component takes from the platform and from the two libraries, none of it code
  of this repository: the clock (\<open>toISOString E n\<close> is the \<open>n\<close>-th reading), \<^verbatim>\<open>JSON.parse\<close>,
  \<^verbatim>\<open>String.prototype.trim\<close>, the printing of a finite number, the three TypeErrors the
  component can raise (a property read on \<^verbatim>\<open>null\<close>, the destructuring of a value that is
  not iterable, the conversion of an object that has no primitive value), double
  precision arithmetic on values that convert to numbers, the engine's conversion of
  Euler angles to a quaternion, and IsoCard's methods. \<open>removeObject\<close> and
  \<open>addObjectsToLayer\<close> return the world they leave and the exception they threw, if any;
  the optional methods (\<^verbatim>\<open>iso.renderScene?.()\<close>) are absent or a function that returns.
\<close>

record env =
  toISOString :: "nat \<Rightarrow> string"
  JSON_parse :: "string \<Rightarrow> exn + jsval"
  trim :: "string \<Rightarrow> string"
  numberToString :: "real \<Rightarrow> string"
  nullRead :: "string \<Rightarrow> exn"
  notIterable :: exn
  notPrimitive :: exn
  times :: "jsval \<Rightarrow> jsval \<Rightarrow> jsval"
  divide_js :: "jsval \<Rightarrow> jsval \<Rightarrow> jsval"
  Math_PI :: jsval
  setFromEuler :: "jsval \<Rightarrow> jsval \<Rightarrow> jsval \<Rightarrow> string \<Rightarrow> quat"
  removeObject :: "jsval \<Rightarrow> world \<Rightarrow> exn option \<times> world"
  addObjectsToLayer :: "string \<Rightarrow> jsval list \<Rightarrow> world \<Rightarrow> exn option \<times> world"
  renderScene :: "(world \<Rightarrow> world) option"
  setTransform :: "(addr \<Rightarrow> vec3 \<Rightarrow> quat \<Rightarrow> world \<Rightarrow> world) option"
  onObjectTransformChanged :: "(addr \<Rightarrow> world \<Rightarrow> world) option"

text \<open>
  The component: \<^verbatim>\<open>this.iso\<close>, the store, the two maps (a \<^verbatim>\<open>Map\<close> is the list of its
  entries in insertion order), \<^verbatim>\<open>this.rafHandle\<close>, and of \<^verbatim>\<open>this.state\<close> the log and the
  layer. \<open>frameRequests\<close> is the browser's list of animation frame callbacks, by handle;
  \<open>handles\<close> is the last handle \<^verbatim>\<open>requestAnimationFrame\<close> returned; \<open>clock\<close> counts the
  readings of the clock. The temporaries \<^verbatim>\<open>_tmpV\<close>, \<^verbatim>\<open>_tmpQ\<close> and \<^verbatim>\<open>_tmpE\<close> are written
  before every read and are left out.

  Names of the source that are taken in Isabelle: \<^verbatim>\<open>state.log\<close> is \<open>log_s\<close> and the method
  \<^verbatim>\<open>log\<close> is \<open>log_msg\<close>; the \<^verbatim>\<open>type\<close> of an object is \<open>type3d\<close>; the \<^verbatim>\<open>id\<close> of an entry is
  \<open>entryId\<close>; the parameter \<^verbatim>\<open>objects\<close> of \<open>enqueuePhysics\<close> is \<open>objs\<close>.
\<close>

record comp =
  iso :: "isocard option"
  heap :: store
  objectIndex :: "(jsval \<times> addr) list"
  pending :: "(jsval \<times> props) list"
  rafHandle :: "nat option"
  log_s :: "string list"
  layerId :: string
  frameRequests :: "nat list"
  handles :: nat
  clock :: nat

subsection \<open>Map\<close>

fun mapGet :: "(jsval \<times> 'v) list \<Rightarrow> jsval \<Rightarrow> 'v option" where
  "mapGet [] k = None"
| "mapGet ((k', v) # m) k = (if sameValueZero k' k then Some v else mapGet m k)"

fun mapSet :: "(jsval \<times> 'v) list \<Rightarrow> jsval \<Rightarrow> 'v \<Rightarrow> (jsval \<times> 'v) list" where
  "mapSet [] k v = [(k, v)]"
| "mapSet ((k', v') # m) k v =
     (if sameValueZero k' k then (k', v) # m else (k', v') # mapSet m k v)"

subsection \<open>log\<close>

definition log_msg :: "env \<Rightarrow> string \<Rightarrow> comp \<Rightarrow> comp" where
  "log_msg E m st =
     st\<lparr>log_s := appendLog (toISOString E (clock st)) m (log_s st), clock := Suc (clock st)\<rparr>"

text \<open>
  The conversion of a value to a primitive, which \<^verbatim>\<open>`${v}`\<close> and arithmetic on \<open>v\<close> begin
  with. For an object it calls the methods \<^verbatim>\<open>toString\<close> and \<^verbatim>\<open>valueOf\<close>. An object of
  parsed JSON inherits both, unless it has a member of that name, which is never a
  function and is passed over; the inherited \<^verbatim>\<open>valueOf\<close> returns the object itself. So an
  object with a member named \<^verbatim>\<open>toString\<close> has no primitive value, and the conversion
  throws a TypeError. An array is converted by \<^verbatim>\<open>join\<close>, which converts its elements.
\<close>

fun unprintable :: "jsval \<Rightarrow> bool" where
  "unprintable (JObj kvs) = (own kvs ''toString'' \<noteq> None)"
| "unprintable (JArr xs) = (\<exists>v \<in> set xs. unprintable v)"
| "unprintable v = False"

text \<open>
  \<^verbatim>\<open>`${v}`\<close>: the string of a value that has one (\<^verbatim>\<open>join\<close> writes the elements \<^verbatim>\<open>null\<close> and
  \<^verbatim>\<open>undefined\<close> as the empty string), or the TypeError.
\<close>

fun joinComma :: "string list \<Rightarrow> string" where
  "joinComma [] = []"
| "joinComma [s] = s"
| "joinComma (s # t # r) = s @ '','' @ joinComma (t # r)"

fun printed :: "env \<Rightarrow> jsval \<Rightarrow> string" where
  "printed E JUndefined = ''undefined''"
| "printed E JNull = ''null''"
| "printed E (JBool b) = (if b then ''true'' else ''false'')"
| "printed E (JNum r) = numberToString E r"
| "printed E JInfinity = ''Infinity''"
| "printed E JNegInfinity = ''-Infinity''"
| "printed E JNaN = ''NaN''"
| "printed E (JStr s) = s"
| "printed E (JArr xs) = joinComma (map (\<lambda>v. if nullish v then [] else printed E v) xs)"
| "printed E (JObj kvs) = ''[object Object]''"

definition toString :: "env \<Rightarrow> jsval \<Rightarrow> exn + string" where
  "toString E v = (if unprintable v then Inl (notPrimitive E) else Inr (printed E v))"

subsection \<open>Scene and index helpers\<close>

text \<open>\<^verbatim>\<open>c?.scene || c?.rootScene || c?.threeScene\<close>\<close>

definition getThreeScene :: "comp \<Rightarrow> addr list option" where
  "getThreeScene st =
     (case iso st of
        None \<Rightarrow> None
      | Some c \<Rightarrow>
          (case scene c of
             Some s \<Rightarrow> Some s
           | None \<Rightarrow> (case rootScene c of Some s \<Rightarrow> Some s | None \<Rightarrow> threeScene c)))"

text \<open>\<^verbatim>\<open>entry?.threeObj || entry?.obj || entry\<close>\<close>

definition entryObject :: "entry \<Rightarrow> addr" where
  "entryObject e =
     (case threeObj e of
        Some a \<Rightarrow> a
      | None \<Rightarrow> (case obj e of Some a \<Rightarrow> a | None \<Rightarrow> self e))"

text \<open>The callback of \<^verbatim>\<open>scene.traverse\<close>, and the body of the loop over \<^verbatim>\<open>iso.objects\<close>.\<close>

definition indexNamed :: "store \<Rightarrow> addr \<Rightarrow> (jsval \<times> addr) list \<Rightarrow> (jsval \<times> addr) list" where
  "indexNamed h a idx = (if name (h a) \<noteq> [] then mapSet idx (JStr (name (h a))) a else idx)"

definition indexEntry :: "entry \<Rightarrow> (jsval \<times> addr) list \<Rightarrow> (jsval \<times> addr) list" where
  "indexEntry e idx =
     (let i = entryId e;
          ob = entryObject e;
          idx1 = (if i \<noteq> JUndefined then mapSet idx i ob else idx);
          nm = getProp (config e) ''name''
      in if truthy nm then mapSet idx1 nm ob else idx1)"

definition rebuildObjectIndex :: "env \<Rightarrow> comp \<Rightarrow> comp" where
  "rebuildObjectIndex E st =
     (case getThreeScene st of
        None \<Rightarrow> st\<lparr>objectIndex := []\<rparr>
      | Some scn \<Rightarrow>
          (let idx1 = fold (indexNamed (heap st)) scn [];
               idx2 = (case iso st of
                         None \<Rightarrow> idx1
                       | Some c \<Rightarrow>
                           (case objects c of None \<Rightarrow> idx1 | Some es \<Rightarrow> fold indexEntry es idx1))
           in log_msg E (''Indexed '' @ string_of_nat (length idx2) @ '' ids/names'')
                (st\<lparr>objectIndex := idx2\<rparr>)))"

text \<open>\<^verbatim>\<open>scene.getObjectByName(n)\<close>: the first object of the scene with that name.\<close>

definition getObjectByName :: "store \<Rightarrow> addr list \<Rightarrow> string \<Rightarrow> addr option" where
  "getObjectByName h scn n = find (\<lambda>a. name (h a) = n) scn"

text \<open>\<^verbatim>\<open>idOrName.replace(/^server_layer/, "")\<close>\<close>

definition stripServerLayer :: "string \<Rightarrow> string" where
  "stripServerLayer s =
     (if take 12 s = ''server_layer'' then drop 12 s else s)"

fun tryNames :: "store \<Rightarrow> addr list \<Rightarrow> string list \<Rightarrow> addr option" where
  "tryNames h scn [] = None"
| "tryNames h scn (n # ns) =
     (case getObjectByName h scn n of Some found \<Rightarrow> Some found | None \<Rightarrow> tryNames h scn ns)"

definition resolveObject :: "env \<Rightarrow> jsval \<Rightarrow> comp \<Rightarrow> addr option \<times> comp" where
  "resolveObject E idOrName st =
     (case mapGet (objectIndex st) idOrName of
        Some cached \<Rightarrow> (Some cached, st)
      | None \<Rightarrow>
          (case getThreeScene st of
             None \<Rightarrow> (None, st)
           | Some scn \<Rightarrow>
               (case (case idOrName of
                        JStr s \<Rightarrow> tryNames (heap st) scn [s, stripServerLayer s]
                      | _ \<Rightarrow> None) of
                  Some found \<Rightarrow>
                    (Some found, st\<lparr>objectIndex := mapSet (objectIndex st) idOrName found\<rparr>)
                | None \<Rightarrow>
                    (let st' = rebuildObjectIndex E st
                     in (mapGet (objectIndex st') idOrName, st')))))"


subsection \<open>Transform application\<close>

text \<open>
  The object \<open>applyOneUpdateTo\<close> writes to: the parent, when the parent is a group of the
  same name, else the target.
\<close>

definition applyTarget :: "store \<Rightarrow> addr \<Rightarrow> addr" where
  "applyTarget h target =
     (case parent (h target) of
        None \<Rightarrow> target
      | Some p \<Rightarrow>
          if type3d (h p) = ''Group'' \<and> name (h p) = name (h target) then p else target)"

text \<open>
  The engine's \<^verbatim>\<open>Vector3.set(x, y, z)\<close> on a vector that holds \<open>old\<close>: it begins with
  \<^verbatim>\<open>if (z === undefined) z = this.z\<close>, so a call without a third component keeps the
  old one.
\<close>

definition Vector3_set :: "vec3 \<Rightarrow> jsval \<Rightarrow> jsval \<Rightarrow> jsval \<Rightarrow> vec3" where
  "Vector3_set old x y z = (x, y, if z = JUndefined then snd (snd old) else z)"

text \<open>
  The position the first \<^verbatim>\<open>if\<close> chain stores in an object whose position is \<open>old\<close>, \<open>None\<close>
  when neither branch is taken. \<^verbatim>\<open>fromArray\<close> reads the elements 0, 1 and 2, and \<^verbatim>\<open>copy\<close>
  copies the three components as they are.
\<close>

definition newPosition :: "vec3 \<Rightarrow> props \<Rightarrow> vec3 option" where
  "newPosition old u =
     (let p = field u ''position''; a = field u ''pos''
      in if truthy p then Some (Vector3_set old (getProp p ''x'') (getProp p ''y'') (getProp p ''z''))
         else if truthy a then Some (getIdx a 0, getIdx a 1, getIdx a 2)
         else None)"

text \<open>
  \<^verbatim>\<open>const [a, b, c] = v\<close>: an array and a string are iterable; for any other value the
  destructuring throws a TypeError.
\<close>

fun destructure3 :: "env \<Rightarrow> jsval \<Rightarrow> exn + (jsval \<times> jsval \<times> jsval)" where
  "destructure3 E (JArr xs) = Inr (getIdx (JArr xs) 0, getIdx (JArr xs) 1, getIdx (JArr xs) 2)"
| "destructure3 E (JStr s) = Inr (getIdx (JStr s) 0, getIdx (JStr s) 1, getIdx (JStr s) 2)"
| "destructure3 E v = Inl (notIterable E)"

text \<open>
  \<^verbatim>\<open>(ex * Math.PI) / 180\<close>, for a value that converts to a number; for one that does not,
  the multiplication throws.
\<close>

definition degToRad :: "env \<Rightarrow> jsval \<Rightarrow> jsval" where
  "degToRad E v = divide_js E (times E v (Math_PI E)) (JNum 180)"

text \<open>
  The engine's arithmetic on the components of a rotation. \<^verbatim>\<open>quaternion.set\<close> and
  \<^verbatim>\<open>quaternion.copy\<close> on the quaternion of an object store the four components and then
  run the object's change callback, which computes the Euler angles from them;
  \<^verbatim>\<open>setRotationFromEuler\<close> halves the three angles before it stores anything. Either
  throws the TypeError of the conversion when a component has no primitive value.
\<close>

definition quaternionChanged :: "env \<Rightarrow> quat \<Rightarrow> exn option" where
  "quaternionChanged E q =
     (case q of
        (x, y, z, w) \<Rightarrow>
          if unprintable x \<or> unprintable y \<or> unprintable z \<or> unprintable w
          then Some (notPrimitive E) else None)"

definition anglesConvert :: "jsval \<Rightarrow> jsval \<Rightarrow> jsval \<Rightarrow> bool" where
  "anglesConvert x y z = (\<not> unprintable x \<and> \<not> unprintable y \<and> \<not> unprintable z)"

text \<open>
  The second \<^verbatim>\<open>if\<close> chain: the quaternion it stores in the object, \<open>None\<close> when it stores
  none, and the exception that leaves it, if any (of a destructuring, or of the
  arithmetic).
\<close>

definition newOrientation :: "env \<Rightarrow> props \<Rightarrow> exn option \<times> quat option" where
  "newOrientation E u =
     (let r = field u ''rotation''; rot = field u ''rot''; eu = field u ''eulerDeg''
      in if truthy r
         then (let q = (getProp r ''x'', getProp r ''y'', getProp r ''z'', getProp r ''w'')
               in (quaternionChanged E q, Some q))
         else if truthy rot \<and> strictEq (getProp rot ''length'') (JNum 4)
         then (let q = (getIdx rot 0, getIdx rot 1, getIdx rot 2, getIdx rot 3)
               in (quaternionChanged E q, Some q))
         else if truthy eu \<and> strictEq (getProp eu ''length'') (JNum 3)
         then (case destructure3 E eu of
                 Inl e \<Rightarrow> (Some e, None)
               | Inr (ex, ey, ez) \<Rightarrow>
                   if anglesConvert ex ey ez
                   then (None, Some (setFromEuler E (degToRad E ex) (degToRad E ey)
                                       (degToRad E ez) ''XYZ''))
                   else (Some (notPrimitive E), None))
         else if truthy rot \<and> strictEq (getProp rot ''length'') (JNum 3)
         then (case destructure3 E rot of
                 Inl e \<Rightarrow> (Some e, None)
               | Inr (rx, ry, rz) \<Rightarrow>
                   if anglesConvert rx ry rz
                   then (None, Some (setFromEuler E rx ry rz ''XYZ''))
                   else (Some (notPrimitive E), None))
         else (None, None))"

text \<open>\<^verbatim>\<open>anyIso?.method?.(...)\<close>: nothing when the instance or the method is absent.\<close>

definition callIso :: "(world \<Rightarrow> world) option \<Rightarrow> comp \<Rightarrow> comp" where
  "callIso f st =
     (case iso st of
        None \<Rightarrow> st
      | Some c \<Rightarrow>
          (case f of
             None \<Rightarrow> st
           | Some g \<Rightarrow> (case g (heap st, c) of (h', c') \<Rightarrow> st\<lparr>iso := Some c', heap := h'\<rparr>)))"

definition setPosition :: "addr \<Rightarrow> vec3 \<Rightarrow> comp \<Rightarrow> comp" where
  "setPosition a p st = st\<lparr>heap := (heap st)(a := (heap st a)\<lparr>position := p\<rparr>)\<rparr>"

definition setQuaternion :: "addr \<Rightarrow> quat \<Rightarrow> comp \<Rightarrow> comp" where
  "setQuaternion a q st = st\<lparr>heap := (heap st)(a := (heap st a)\<lparr>quaternion := q\<rparr>)\<rparr>"

definition setMatrixFlags :: "addr \<Rightarrow> comp \<Rightarrow> comp" where
  "setMatrixFlags a st =
     st\<lparr>heap := (heap st)(a := (heap st a)\<lparr>matrixWorldNeedsUpdate := True, matrixAutoUpdate := True\<rparr>)\<rparr>"

text \<open>
  The result is the exception that left the function, if any, and the component as it
  is then.
\<close>

definition applyOneUpdateTo :: "env \<Rightarrow> addr \<Rightarrow> props \<Rightarrow> comp \<Rightarrow> exn option \<times> comp" where
  "applyOneUpdateTo E target u st =
     (let ob = applyTarget (heap st) target;
          st1 = (case newPosition (position (heap st ob)) u of
                   None \<Rightarrow> st
                 | Some p \<Rightarrow> setPosition ob p st);
          st2 = (case snd (newOrientation E u) of
                   None \<Rightarrow> st1
                 | Some q \<Rightarrow> setQuaternion ob q st1)
      in case fst (newOrientation E u) of
           Some e \<Rightarrow> (Some e, st2)
         | None \<Rightarrow>
             (let st3 = setMatrixFlags ob st2;
                  st4 = callIso (map_option (\<lambda>g. g ob (position (heap st3 ob)) (quaternion (heap st3 ob)))
                                   (setTransform E)) st3;
                  st5 = callIso (map_option (\<lambda>g. g ob) (onObjectTransformChanged E)) st4
              in (None, st5)))"

subsection \<open>Updates: collect and flush per frame\<close>

text \<open>
  The loop over the array form: the entries pushed to \<^verbatim>\<open>arr\<close>. \<open>arrayEntry\<close> is the literal
  \<^verbatim>\<open>{ ...it, layerId: it.layerId ?? defaultLayerId }\<close>.
\<close>

definition arrayEntry :: "jsval \<Rightarrow> jsval \<Rightarrow> props" where
  "arrayEntry d it = spread it @ [(''layerId'', coalesce (getProp it ''layerId'') d)]"

fun collectArray :: "jsval \<Rightarrow> jsval list \<Rightarrow> props list" where
  "collectArray d [] = []"
| "collectArray d (it # r) =
     (if \<not> truthy it then collectArray d r
      else if nullish (coalesce (getProp it ''id'') (getProp it ''name'')) then collectArray d r
      else arrayEntry d it # collectArray d r)"

text \<open>The entry pushed for one key of the record form.\<close>

definition recordEntry :: "jsval \<Rightarrow> jsval \<Rightarrow> string \<Rightarrow> props" where
  "recordEntry d objs key =
     (let ob = getProp objs key
      in spread (js_or ob (JObj [])) @
         [(''id'', getProp ob ''id''),
          (''name'', coalesce (getProp ob ''name'') (JStr key)),
          (''layerId'', coalesce (getProp ob ''layerId'') d)])"

text \<open>The body of the loop over \<^verbatim>\<open>arr\<close>.\<close>

definition mergeUpdate :: "props \<Rightarrow> (jsval \<times> props) list \<Rightarrow> (jsval \<times> props) list" where
  "mergeUpdate u pend =
     (let key = coalesce (field u ''id'') (field u ''name'');
          prev = (case mapGet pend key of
                    Some p \<Rightarrow> p
                  | None \<Rightarrow> [(''id'', field u ''id''), (''name'', field u ''name'')])
      in mapSet pend key (prev @ u))"

text \<open>
  \<^verbatim>\<open>if (this.rafHandle == null) this.rafHandle = requestAnimationFrame(...)\<close>: the browser
  adds the callback to its list and returns a new handle.
\<close>

definition scheduleFlush :: "comp \<Rightarrow> comp" where
  "scheduleFlush st =
     (case rafHandle st of
        Some h \<Rightarrow> st
      | None \<Rightarrow>
          st\<lparr>rafHandle := Some (Suc (handles st)),
             frameRequests := frameRequests st @ [Suc (handles st)],
             handles := Suc (handles st)\<rparr>)"

definition enqueuePhysics :: "jsval \<Rightarrow> jsval \<Rightarrow> comp \<Rightarrow> comp" where
  "enqueuePhysics objs defaultLayerId st =
     (case objs of
        JArr xs \<Rightarrow>
          scheduleFlush
            (st\<lparr>pending := fold mergeUpdate (collectArray defaultLayerId xs) (pending st)\<rparr>)
      | JObj kvs \<Rightarrow>
          scheduleFlush
            (st\<lparr>pending := fold mergeUpdate
                              (map (recordEntry defaultLayerId objs) (objectKeys objs))
                              (pending st)\<rparr>)
      | _ \<Rightarrow> st)"

text \<open>
  The layer tag of an object:
  \<^verbatim>\<open>obj.userData?.layer || obj.parent?.userData?.layer || obj.userData?.config?.layer || "main"\<close>
\<close>

definition objLayer :: "store \<Rightarrow> addr \<Rightarrow> jsval" where
  "objLayer h a =
     js_or (field (userData (h a)) ''layer'')
       (js_or (case parent (h a) of None \<Rightarrow> JUndefined | Some p \<Rightarrow> field (userData (h p)) ''layer'')
          (js_or (getProp (field (userData (h a)) ''config'') ''layer'') (JStr ''main'')))"

text \<open>The layer guard of \<open>flushPending\<close>: true when the update is skipped.\<close>

definition layerMismatch :: "string \<Rightarrow> store \<Rightarrow> addr \<Rightarrow> props \<Rightarrow> bool" where
  "layerMismatch layerHint h a u =
     (let mustLayer = coalesce (field u ''layerId'') (JStr layerHint)
      in truthy mustLayer \<and> truthy (objLayer h a) \<and> \<not> strictEq (objLayer h a) mustLayer)"

text \<open>
  The loop of \<open>flushPending\<close> over the pending entries, with the count of applied updates.
  An exception of \<open>applyOneUpdateTo\<close> leaves the loop and the function.
\<close>

fun flushLoop ::
  "env \<Rightarrow> string \<Rightarrow> (jsval \<times> props) list \<Rightarrow> nat \<Rightarrow> comp \<Rightarrow> exn option \<times> nat \<times> comp" where
  "flushLoop E layerHint [] applied st = (None, applied, st)"
| "flushLoop E layerHint ((key, u) # rest) applied st =
     (case resolveObject E key st of
        (None, st1) \<Rightarrow> flushLoop E layerHint rest applied st1
      | (Some ob, st1) \<Rightarrow>
          if layerMismatch layerHint (heap st1) ob u then flushLoop E layerHint rest applied st1
          else (case applyOneUpdateTo E ob u st1 of
                  (Some e, st2) \<Rightarrow> (Some e, applied, st2)
                | (None, st2) \<Rightarrow> flushLoop E layerHint rest (Suc applied) st2))"

definition flushPending :: "env \<Rightarrow> comp \<Rightarrow> exn option \<times> comp" where
  "flushPending E st =
     (if iso st = None \<or> pending st = [] then (None, st)
      else (case flushLoop E (layerId st) (pending st) 0 st of
              (Some e, applied, st1) \<Rightarrow> (Some e, st1)
            | (None, applied, st1) \<Rightarrow>
                (let st2 = callIso (renderScene E) (st1\<lparr>pending := []\<rparr>)
                 in (None,
                     if applied \<noteq> 0
                     then log_msg E (''Applied '' @ string_of_nat applied @ '' transform'' @
                                      (if applied = 1 then [] else ''s'')) st2
                     else st2))))"

text \<open>
  The callback \<open>enqueuePhysics\<close> registers, and an animation frame: the browser takes its
  list of callbacks and runs each once, in order; an exception of a callback is reported
  and the next callback runs. The result lists the outcome of every callback run.
\<close>

definition rafCallback :: "env \<Rightarrow> comp \<Rightarrow> exn option \<times> comp" where
  "rafCallback E st = flushPending E (st\<lparr>rafHandle := None\<rparr>)"

fun runCallbacks :: "env \<Rightarrow> nat list \<Rightarrow> comp \<Rightarrow> exn option list \<times> comp" where
  "runCallbacks E [] st = ([], st)"
| "runCallbacks E (h # hs) st =
     (case rafCallback E st of
        (ex, st1) \<Rightarrow> (case runCallbacks E hs st1 of (exs, st2) \<Rightarrow> (ex # exs, st2)))"

definition animationFrame :: "env \<Rightarrow> comp \<Rightarrow> exn option list \<times> comp" where
  "animationFrame E st = runCallbacks E (frameRequests st) (st\<lparr>frameRequests := []\<rparr>)"


subsection \<open>Layer utilities\<close>

definition dquote :: string where
  "dquote = [CHR 0x22]"

text \<open>
  \<^verbatim>\<open>try { this.iso!.removeObject(e.id); } catch {}\<close>: the exception is dropped, the world
  is as the call left it.
\<close>

definition removeOne :: "env \<Rightarrow> entry \<Rightarrow> comp \<Rightarrow> comp" where
  "removeOne E e st =
     (case iso st of
        None \<Rightarrow> st
      | Some c \<Rightarrow>
          (case removeObject E (entryId e) (heap st, c) of
             (ex, (h', c')) \<Rightarrow> st\<lparr>iso := Some c', heap := h'\<rparr>))"

definition toRemove :: "string \<Rightarrow> entry list \<Rightarrow> entry list" where
  "toRemove layer es = filter (\<lambda>e. strictEq (getProp (config e) ''layer'') (JStr layer)) es"

definition clearLayer :: "env \<Rightarrow> string \<Rightarrow> comp \<Rightarrow> comp" where
  "clearLayer E layer st =
     (case iso st of
        None \<Rightarrow> st
      | Some c \<Rightarrow>
          (case objects c of
             None \<Rightarrow> st
           | Some es \<Rightarrow>
               (let st1 = fold (removeOne E) (toRemove layer es) st
                in if toRemove layer es \<noteq> []
                   then log_msg E (''Cleared '' @ string_of_nat (length (toRemove layer es)) @
                                    '' object(s) from layer '' @ dquote @ layer @ dquote) st1
                   else st1)))"

subsection \<open>Scene ingestion\<close>

text \<open>
  \<^verbatim>\<open>JSON.parse(JSON.stringify(obj, (k, v) => (k === "physics" ? undefined : v)))\<close>:
  the value written and read back is a copy without the members named \<^verbatim>\<open>physics\<close>, at
  every depth. \<^verbatim>\<open>JSON.stringify\<close> also leaves out a member whose value is undefined, and
  writes \<^verbatim>\<open>null\<close> for an undefined element of an array and for a number that is not
  finite. (An object here is one of parsed JSON, each of its keys defined once.) For
  \<^verbatim>\<open>undefined\<close> itself \<^verbatim>\<open>JSON.stringify\<close> returns \<^verbatim>\<open>undefined\<close>, which \<^verbatim>\<open>JSON.parse\<close> reads as the
  text \<^verbatim>\<open>undefined\<close> and, in every engine, rejects.
\<close>

fun stripValue :: "jsval \<Rightarrow> jsval" where
  "stripValue (JObj kvs) =
     JObj (map (\<lambda>kv. (fst kv, stripValue (snd kv)))
             (filter (\<lambda>kv. fst kv \<noteq> ''physics'' \<and> snd kv \<noteq> JUndefined) kvs))"
| "stripValue (JArr xs) = JArr (map stripValue xs)"
| "stripValue JUndefined = JNull"
| "stripValue JInfinity = JNull"
| "stripValue JNegInfinity = JNull"
| "stripValue JNaN = JNull"
| "stripValue v = v"

definition stripPhysicsDeep :: "env \<Rightarrow> jsval \<Rightarrow> exn + jsval" where
  "stripPhysicsDeep E v = (if v = JUndefined then JSON_parse E ''undefined'' else Inr (stripValue v))"

text \<open>
  \<^verbatim>\<open>Array.isArray(sceneLike) ? sceneLike : Array.isArray(sceneLike?.scene) ? sceneLike.scene : [sceneLike]\<close>
\<close>

definition ensureSceneArray :: "jsval \<Rightarrow> jsval list" where
  "ensureSceneArray sceneLike =
     (case sceneLike of
        JArr xs \<Rightarrow> xs
      | _ \<Rightarrow> (case getProp sceneLike ''scene'' of JArr ys \<Rightarrow> ys | _ \<Rightarrow> [sceneLike]))"

text \<open>\<^verbatim>\<open>ensureSceneArray(cleaned).map((o) => ({ ...o, layer: layerId }))\<close>\<close>

definition scenePayload :: "string \<Rightarrow> jsval \<Rightarrow> jsval list" where
  "scenePayload layer cleaned =
     map (\<lambda>ob. JObj (spread ob @ [(''layer'', JStr layer)])) (ensureSceneArray cleaned)"

text \<open>
  \<^verbatim>\<open>if (e?.threeObj) e.threeObj.userData.layer = e?.config?.layer || layerId\<close>
\<close>

definition tagLayer :: "string \<Rightarrow> entry \<Rightarrow> store \<Rightarrow> store" where
  "tagLayer layer e h =
     (case threeObj e of
        None \<Rightarrow> h
      | Some a \<Rightarrow>
          h(a := (h a)\<lparr>userData :=
                 userData (h a) @ [(''layer'', js_or (getProp (config e) ''layer'') (JStr layer))]\<rparr>))"

definition arrow :: string where
  "arrow = [CHR 0xE2, CHR 0x86, CHR 0x92]"

text \<open>
  The rest of the \<^verbatim>\<open>try\<close> block of \<open>handleSceneState\<close>, from the call of
  \<^verbatim>\<open>addObjectsToLayer\<close> with the payload on.
\<close>

definition ingestPayload :: "env \<Rightarrow> string \<Rightarrow> jsval list \<Rightarrow> comp \<Rightarrow> comp" where
  "ingestPayload E layer payload st1 =
     (case iso st1 of
        None \<Rightarrow>
          log_msg E (''Scene load failed: '' @ errText (nullRead E ''addObjectsToLayer'')) st1
      | Some c \<Rightarrow>
          (case addObjectsToLayer E layer payload (heap st1, c) of
             (Some e, (h2, c2)) \<Rightarrow>
               log_msg E (''Scene load failed: '' @ errText e) (st1\<lparr>iso := Some c2, heap := h2\<rparr>)
           | (None, (h2, c2)) \<Rightarrow>
               (let h3 = (case objects c2 of None \<Rightarrow> h2 | Some es \<Rightarrow> fold (tagLayer layer) es h2);
                    st3 = rebuildObjectIndex E (st1\<lparr>iso := Some c2, heap := h3\<rparr>);
                    st4 = callIso (renderScene E) st3
                in log_msg E (''Scene loaded '' @ arrow @ '' layer '' @ dquote @ layer @ dquote @
                               '' (objects: '' @ string_of_nat (length payload) @ '')'') st4)))"

definition handleSceneState :: "env \<Rightarrow> jsval \<Rightarrow> comp \<Rightarrow> comp" where
  "handleSceneState E sceneData st =
     (if iso st = None then log_msg E ''IsoCard not ready'' st
      else
        (case stripPhysicsDeep E sceneData of
           Inl e \<Rightarrow> log_msg E (''Scene load failed: '' @ errText e) st
         | Inr cleaned \<Rightarrow>
             (let layer = layerId st;
                  st1 = clearLayer E layer st;
                  payload = scenePayload layer cleaned
              in ingestPayload E layer payload st1)))"

subsection \<open>Message handling\<close>

text \<open>
  \<open>onMessage\<close> on the text of a socket payload (for an \<^verbatim>\<open>ArrayBuffer\<close>, the text the
  platform's decoder gives). The \<^verbatim>\<open>catch\<close> block is \<open>parseFailed\<close>: it is reached from
  \<^verbatim>\<open>JSON.parse\<close>, from \<^verbatim>\<open>msg.type\<close> when the message is \<^verbatim>\<open>null\<close>, and from the two template
  literals, when the type or the message of an \<^verbatim>\<open>ERROR\<close> has no string; the argument of
  \<open>log\<close> is evaluated before the call, so the line is not written then.
  \<open>handleSceneState\<close> catches its own exceptions and \<open>enqueuePhysics\<close> throws none.
\<close>

definition parseFailed :: "env \<Rightarrow> exn \<Rightarrow> comp \<Rightarrow> comp" where
  "parseFailed E e st = log_msg E (''Message parse failed: '' @ errText e) st"

definition physicsType :: "jsval \<Rightarrow> bool" where
  "physicsType t =
     (strictEq t (JStr ''PHYSICS_UPDATE'') \<or> strictEq t (JStr ''PHYSICS_TICK'') \<or>
      strictEq t (JStr ''TRANSFORMS''))"

definition onMessage :: "env \<Rightarrow> string \<Rightarrow> comp \<Rightarrow> comp" where
  "onMessage E text_s st =
     (if trim E text_s = [] then st
      else
        (case JSON_parse E text_s of
           Inl e \<Rightarrow> parseFailed E e st
         | Inr msg \<Rightarrow>
             if nullish msg then parseFailed E (nullRead E ''type'') st
             else
               (let type_s = getProp msg ''type''
                in if \<not> truthy type_s then st
                   else
                     (case toString E type_s of
                        Inl e \<Rightarrow> parseFailed E e st
                      | Inr received \<Rightarrow>
                          (let st1 = log_msg E (''Received: '' @ received) st
                           in if strictEq type_s (JStr ''SCENE_STATE'')
                              then handleSceneState E (coalesce (getProp msg ''scene'') msg) st1
                              else if physicsType type_s
                              then enqueuePhysics
                                     (coalesce (getProp msg ''objects'')
                                        (coalesce (getProp msg ''payload'')
                                           (coalesce (getProp msg ''data'') msg)))
                                     (coalesce (getProp msg ''layerId'')
                                        (coalesce (getProp msg ''layer'') JUndefined))
                                     st1
                              else if strictEq type_s (JStr ''ERROR'')
                              then (case toString E (coalesce (getProp msg ''message'')
                                                       (JStr ''(no message)'')) of
                                      Inl e \<Rightarrow> parseFailed E e st1
                                    | Inr m \<Rightarrow> log_msg E (''Server error: '' @ m) st1)
                              else st1)))))"


section \<open>Notions of the properties\<close>

text \<open>The key of a normalised update, and the array entries the loop keeps.\<close>

definition updKey :: "props \<Rightarrow> jsval" where
  "updKey u = coalesce (field u ''id'') (field u ''name'')"

definition kept :: "jsval \<Rightarrow> bool" where
  "kept it = (truthy it \<and> \<not> nullish (coalesce (getProp it ''id'') (getProp it ''name'')))"

text \<open>
  Last write wins: the buffered entry of a key (if any), overlaid in order by the
  normalised updates of a batch for that key.
\<close>

fun overlay :: "props option \<Rightarrow> props list \<Rightarrow> props option" where
  "overlay prev [] = prev"
| "overlay prev (u # us) =
     overlay (Some ((case prev of
                       Some p \<Rightarrow> p
                     | None \<Rightarrow> [(''id'', field u ''id''), (''name'', field u ''name'')]) @ u)) us"

text \<open>
  The browser holds a frame callback of the component exactly when \<open>rafHandle\<close> is set,
  and then exactly one.
\<close>

definition rafInv :: "comp \<Rightarrow> bool" where
  "rafInv st = (frameRequests st = (case rafHandle st of None \<Rightarrow> [] | Some h \<Rightarrow> [h]))"

text \<open>
  What the properties of the transforms assume of IsoCard: its optional methods
  \<open>setTransform\<close>, \<open>onObjectTransformChanged\<close> and \<open>renderScene\<close> do not move an object.
\<close>

definition keepsTransforms :: "world \<Rightarrow> world \<Rightarrow> bool" where
  "keepsTransforms w w' =
     (\<forall>a. position (fst w' a) = position (fst w a) \<and> quaternion (fst w' a) = quaternion (fst w a))"

definition hooksKeepTransforms :: "env \<Rightarrow> bool" where
  "hooksKeepTransforms E =
     ((case setTransform E of None \<Rightarrow> True | Some g \<Rightarrow> \<forall>a p q w. keepsTransforms w (g a p q w)) \<and>
      (case onObjectTransformChanged E of None \<Rightarrow> True | Some g \<Rightarrow> \<forall>a w. keepsTransforms w (g a w)) \<and>
      (case renderScene E of None \<Rightarrow> True | Some g \<Rightarrow> \<forall>w. keepsTransforms w (g w)))"

text \<open>
  The transform fields as \<open>OneUpdate\<close> declares them: \<^verbatim>\<open>position\<close> an object with the
  numbers x, y and z, \<^verbatim>\<open>rotation\<close> one with the numbers x, y, z and w, \<^verbatim>\<open>pos\<close> and
  \<^verbatim>\<open>eulerDeg\<close> arrays of three numbers, \<^verbatim>\<open>rot\<close> an array of four or of three numbers.
  Every field is optional, and \<^verbatim>\<open>null\<close> is tolerated.
\<close>

fun isNumber :: "jsval \<Rightarrow> bool" where
  "isNumber (JNum r) = True"
| "isNumber JInfinity = True"
| "isNumber JNegInfinity = True"
| "isNumber JNaN = True"
| "isNumber v = False"

definition numbersAt :: "string list \<Rightarrow> jsval \<Rightarrow> bool" where
  "numbersAt ks v = (case v of JObj kvs \<Rightarrow> list_all (\<lambda>k. isNumber (field kvs k)) ks | _ \<Rightarrow> False)"

definition numberArray :: "nat \<Rightarrow> jsval \<Rightarrow> bool" where
  "numberArray n v = (case v of JArr xs \<Rightarrow> length xs = n \<and> list_all isNumber xs | _ \<Rightarrow> False)"

definition declaredType :: "props \<Rightarrow> bool" where
  "declaredType u =
     ((nullish (field u ''position'') \<or> numbersAt [''x'', ''y'', ''z''] (field u ''position'')) \<and>
      (nullish (field u ''rotation'') \<or>
       numbersAt [''x'', ''y'', ''z'', ''w''] (field u ''rotation'')) \<and>
      (nullish (field u ''pos'') \<or> numberArray 3 (field u ''pos'')) \<and>
      (nullish (field u ''rot'') \<or> numberArray 4 (field u ''rot'') \<or>
       numberArray 3 (field u ''rot'')) \<and>
      (nullish (field u ''eulerDeg'') \<or> numberArray 3 (field u ''eulerDeg'')))"




text \<open>
  What the rebuilt index holds for a key: the object of the last entry of \<^verbatim>\<open>iso.objects\<close>
  indexed under it (by its id, or by the name of its config), else the last object of
  the scene with that name.
\<close>

definition entryKeyed :: "jsval \<Rightarrow> entry \<Rightarrow> bool" where
  "entryKeyed k e =
     ((entryId e \<noteq> JUndefined \<and> sameValueZero (entryId e) k) \<or>
      (truthy (getProp (config e) ''name'') \<and> sameValueZero (getProp (config e) ''name'') k))"

definition rebuiltLookup :: "store \<Rightarrow> addr list \<Rightarrow> entry list \<Rightarrow> jsval \<Rightarrow> addr option" where
  "rebuiltLookup h scn es k =
     (case find (entryKeyed k) (rev es) of
        Some e \<Rightarrow> Some (entryObject e)
      | None \<Rightarrow> find (\<lambda>a. name (h a) \<noteq> [] \<and> JStr (name (h a)) = k) (rev scn))"

section \<open>A concrete environment and scene\<close>

text \<open>
  An instance of the environment and a small scene, for the concrete cases below: a clock,
  a parser that knows the messages used here, arithmetic and the engine's formula for
  the order XYZ on finite numbers (NaN stands for every other result), and an IsoCard
  whose \<open>removeObject\<close> drops the entries of an id and whose \<open>addObjectsToLayer\<close> appends one
  entry per object of the payload.
\<close>

definition msgError :: string where
  \<open>msgError = ''{"type":"ERROR","message":"boom"}''\<close>

definition msgTransforms :: string where
  \<open>msgTransforms = ''{"type":"TRANSFORMS","layer":"server_layer","objects":[{"id":7,"pos":[1,2,3]}]}''\<close>

definition msgScene :: string where
  \<open>msgScene = ''{"type":"SCENE_STATE","scene":{"name":"box","physics":{"mass":1}}}''\<close>

definition msgPing :: string where
  \<open>msgPing = ''{"type":"PING"}''\<close>

definition msgUntyped :: string where
  \<open>msgUntyped = ''{"objects":[{"id":7}]}''\<close>

definition msgOddType :: string where
  \<open>msgOddType = ''{"type":{"toString":1}}''\<close>

definition msgOddError :: string where
  \<open>msgOddError = ''{"type":"ERROR","message":{"toString":1}}''\<close>

definition msgPoison :: string where
  \<open>msgPoison = ''{"type":"TRANSFORMS","objects":[{"id":7,"pos":[1,2,3],"eulerDeg":{"length":3}}]}''\<close>

definition testParse :: "string \<Rightarrow> exn + jsval" where
  "testParse s =
     (if s = msgError then Inr (JObj [(''type'', JStr ''ERROR''), (''message'', JStr ''boom'')])
      else if s = msgTransforms
      then Inr (JObj [(''type'', JStr ''TRANSFORMS''), (''layer'', JStr ''server_layer''),
                      (''objects'', JArr [JObj [(''id'', JNum 7),
                                                (''pos'', JArr [JNum 1, JNum 2, JNum 3])]])])
      else if s = msgScene
      then Inr (JObj [(''type'', JStr ''SCENE_STATE''),
                      (''scene'', JObj [(''name'', JStr ''box''),
                                        (''physics'', JObj [(''mass'', JNum 1)])])])
      else if s = msgPing then Inr (JObj [(''type'', JStr ''PING'')])
      else if s = msgUntyped then Inr (JObj [(''objects'', JArr [JObj [(''id'', JNum 7)]])])
      else if s = msgOddType then Inr (JObj [(''type'', JObj [(''toString'', JNum 1)])])
      else if s = msgOddError
      then Inr (JObj [(''type'', JStr ''ERROR''), (''message'', JObj [(''toString'', JNum 1)])])
      else if s = msgPoison
      then Inr (JObj [(''type'', JStr ''TRANSFORMS''),
                      (''objects'', JArr [JObj [(''id'', JNum 7),
                                                (''pos'', JArr [JNum 1, JNum 2, JNum 3]),
                                                (''eulerDeg'', JObj [(''length'', JNum 3)])]])])
      else if s = ''null'' then Inr JNull
      else Inl (Exn ''SyntaxError'' ''Unexpected token''))"

definition testEuler :: "jsval \<Rightarrow> jsval \<Rightarrow> jsval \<Rightarrow> string \<Rightarrow> quat" where
  "testEuler x y z order =
     (case (x, y, z) of
        (JNum a, JNum b, JNum c) \<Rightarrow>
          (JNum (sin (a / 2) * cos (b / 2) * cos (c / 2) + cos (a / 2) * sin (b / 2) * sin (c / 2)),
           JNum (cos (a / 2) * sin (b / 2) * cos (c / 2) - sin (a / 2) * cos (b / 2) * sin (c / 2)),
           JNum (cos (a / 2) * cos (b / 2) * sin (c / 2) + sin (a / 2) * sin (b / 2) * cos (c / 2)),
           JNum (cos (a / 2) * cos (b / 2) * cos (c / 2) - sin (a / 2) * sin (b / 2) * sin (c / 2)))
      | _ \<Rightarrow> (JNaN, JNaN, JNaN, JNaN))"

definition testRemove :: "jsval \<Rightarrow> world \<Rightarrow> exn option \<times> world" where
  "testRemove i w =
     (None, (fst w, (snd w)\<lparr>objects := map_option (filter (\<lambda>e. entryId e \<noteq> i)) (objects (snd w))\<rparr>))"

definition testAdd :: "string \<Rightarrow> jsval list \<Rightarrow> world \<Rightarrow> exn option \<times> world" where
  "testAdd layer payload w =
     (None, (fst w,
        (snd w)\<lparr>objects :=
           Some ((case objects (snd w) of None \<Rightarrow> [] | Some es \<Rightarrow> es) @
                 map (\<lambda>p. \<lparr>entryId = getProp p ''id'', threeObj = None, obj = None, self = 0,
                           config = p\<rparr>) payload)\<rparr>))"

definition testEnv :: env where
  "testEnv =
     \<lparr>toISOString = (\<lambda>n. ''2025-01-01T00:00:00.00'' @ string_of_nat n @ ''Z''),
      JSON_parse = testParse,
      trim = (\<lambda>s. rev (dropWhile (\<lambda>c. c = CHR '' '') (rev (dropWhile (\<lambda>c. c = CHR '' '') s)))),
      numberToString = (\<lambda>r. string_of_nat (nat \<lfloor>r\<rfloor>)),
      nullRead = (\<lambda>k. Exn ''TypeError'' (''Cannot read properties of null (reading '' @ k @ '')'')),
      notIterable = Exn ''TypeError'' ''object is not iterable'',
      notPrimitive = Exn ''TypeError'' ''Cannot convert object to primitive value'',
      times = (\<lambda>a b. case (a, b) of (JNum x, JNum y) \<Rightarrow> JNum (x * y) | _ \<Rightarrow> JNaN),
      divide_js = (\<lambda>a b. case (a, b) of (JNum x, JNum y) \<Rightarrow> JNum (x / y) | _ \<Rightarrow> JNaN),
      Math_PI = JNum pi,
      setFromEuler = testEuler,
      removeObject = testRemove,
      addObjectsToLayer = testAdd,
      renderScene = Some (\<lambda>w. w),
      setTransform = None,
      onObjectTransformChanged = Some (\<lambda>a w. w)\<rparr>"

text \<open>
  The scene: the root (object 0), and a mesh named \<^verbatim>\<open>ball\<close> (object 1) tagged with the
  layer \<^verbatim>\<open>server_layer\<close>, which IsoCard lists with the id 7.
\<close>

definition blank :: object3d where
  "blank =
     \<lparr>name = [], type3d = ''Object3D'', parent = None,
      position = (JNum 0, JNum 0, JNum 0), quaternion = (JNum 0, JNum 0, JNum 0, JNum 1),
      userData = [], matrixWorldNeedsUpdate = False, matrixAutoUpdate = True\<rparr>"

definition ball :: object3d where
  "ball = blank\<lparr>name := ''ball'', type3d := ''Mesh'', parent := Some 0,
               userData := [(''layer'', JStr ''server_layer'')]\<rparr>"

definition testHeap :: store where
  "testHeap = (\<lambda>a. blank)(0 := blank\<lparr>type3d := ''Scene''\<rparr>, 1 := ball)"

definition ballEntry :: entry where
  "ballEntry =
     \<lparr>entryId = JNum 7, threeObj = Some 1, obj = None, self = 2,
      config = JObj [(''name'', JStr ''ball''), (''layer'', JStr ''server_layer'')]\<rparr>"

definition testIso :: isocard where
  "testIso = \<lparr>scene = Some [0, 1], rootScene = None, threeScene = None, objects = Some [ballEntry]\<rparr>"

definition testComp :: comp where
  "testComp =
     \<lparr>iso = Some testIso, heap = testHeap, objectIndex = [], pending = [], rafHandle = None,
      log_s = [], layerId = ''server_layer'', frameRequests = [], handles = 0, clock = 0\<rparr>"


text \<open>
  A buffer that holds an update of object 7 with a layer of its own, and an incoming
  entry for the same object without one.
\<close>

definition bufferedA :: comp where
  "bufferedA = testComp\<lparr>pending := [(JNum 7, [(''id'', JNum 7), (''layerId'', JStr ''A''),
                                              (''pos'', JArr [JNum 1, JNum 2, JNum 3])])]\<rparr>"

definition rotOnly :: jsval where
  "rotOnly = JObj [(''id'', JNum 7), (''rot'', JArr [JNum 0, JNum 0, JNum 0, JNum 1])]"

text \<open>
  The fields of the component that the index, the transforms, the log and IsoCard's
  methods leave alone.
\<close>

definition sameControl :: "comp \<Rightarrow> comp \<Rightarrow> bool" where
  "sameControl st st' =
     (pending st' = pending st \<and> rafHandle st' = rafHandle st \<and>
      frameRequests st' = frameRequests st \<and> handles st' = handles st \<and>
      layerId st' = layerId st \<and> (iso st' = None) = (iso st = None))"

text \<open>
  Three calls of \<open>enqueuePhysics\<close> between two frames, the last with a value that is
  neither an array nor an object; and the component after one update of object 7 was
  buffered.
\<close>

definition threeCalls :: "(jsval \<times> jsval) list" where
  "threeCalls = [(JArr [rotOnly], JUndefined), (JArr [rotOnly], JStr ''B''), (JNum 5, JUndefined)]"

definition moveBall :: props where
  "moveBall = [(''id'', JNum 7), (''pos'', JArr [JNum 1, JNum 2, JNum 3]),
               (''layerId'', JStr ''server_layer'')]"

definition queued :: comp where
  "queued = testComp\<lparr>pending := [(JNum 7, moveBall)], rafHandle := Some 1,
                     frameRequests := [1], handles := 1\<rparr>"

text \<open>
  The objects the loop of \<open>flushPending\<close> writes to, in order: one for every update that
  resolves to an object and passes the layer guard.
\<close>

fun writtenObjects :: "env \<Rightarrow> string \<Rightarrow> (jsval \<times> props) list \<Rightarrow> comp \<Rightarrow> addr list" where
  "writtenObjects E layerHint [] st = []"
| "writtenObjects E layerHint ((key, u) # rest) st =
     (case resolveObject E key st of
        (None, st1) \<Rightarrow> writtenObjects E layerHint rest st1
      | (Some ob, st1) \<Rightarrow>
          if layerMismatch layerHint (heap st1) ob u then writtenObjects E layerHint rest st1
          else applyTarget (heap st1) ob #
               (case applyOneUpdateTo E ob u st1 of
                  (Some e, st2) \<Rightarrow> []
                | (None, st2) \<Rightarrow> writtenObjects E layerHint rest st2))"

text \<open>
  Two buffered updates that resolve to the ball: one by name with another layer, one by
  id with the layer of the ball.
\<close>

definition otherLayer :: props where
  "otherLayer = [(''name'', JStr ''ball''), (''pos'', JArr [JNum 9, JNum 9, JNum 9]),
                 (''layerId'', JStr ''other'')]"

definition aliased :: comp where
  "aliased = testComp\<lparr>pending := [(JStr ''ball'', otherLayer), (JNum 7, moveBall)]\<rparr>"

definition skippedOnly :: comp where
  "skippedOnly = testComp\<lparr>pending := [(JStr ''ball'', otherLayer)]\<rparr>"

text \<open>
  An update with a position array, Euler angles in degrees and a rotation array of
  three elements.
\<close>

definition eulerUpdate :: props where
  "eulerUpdate = [(''id'', JNum 7), (''pos'', JArr [JNum 1, JNum 2, JNum 3]),
                  (''eulerDeg'', JArr [JNum 90, JNum 0, JNum 0]),
                  (''rot'', JArr [JNum 0, JNum 0, JNum 0])]"

text \<open>
  A component whose IsoCard instance exposes no scene, with an entry left in the index.
\<close>

definition noScene :: comp where
  "noScene = testComp\<lparr>iso := Some (testIso\<lparr>scene := None\<rparr>), objectIndex := [(JStr ''ball'', 1)]\<rparr>"

definition cachedSeven :: comp where
  "cachedSeven = testComp\<lparr>objectIndex := [(JNum 7, 1)]\<rparr>"

text \<open>
  An update whose \<^verbatim>\<open>position\<close> has no z, and one whose \<^verbatim>\<open>eulerDeg\<close> is an object with a
  length of three, not an array; the component with the latter buffered.
\<close>

definition flatMove :: props where
  "flatMove = [(''id'', JNum 7), (''position'', JObj [(''x'', JNum 5), (''y'', JNum 6)])]"

definition poison :: props where
  "poison = [(''id'', JNum 7), (''pos'', JArr [JNum 1, JNum 2, JNum 3]),
             (''eulerDeg'', JObj [(''length'', JNum 3)]), (''layerId'', JUndefined)]"

definition poisoned :: comp where
  "poisoned = testComp\<lparr>pending := [(JNum 7, [(''id'', JNum 7), (''name'', JUndefined)] @ poison)],
                       rafHandle := Some 1, frameRequests := [1], handles := 1\<rparr>"





text \<open>The bound of the log.\<close>

definition logBounded :: "comp \<Rightarrow> bool" where
  "logBounded st = (length (log_s st) \<le> 400)"

text \<open>The scene with the ball mesh inside a group of the same name (object 3).\<close>

definition grouped :: comp where
  "grouped =
     testComp\<lparr>heap := testHeap(1 := ball\<lparr>parent := Some 3\<rparr>,
                                3 := blank\<lparr>name := ''ball'', type3d := ''Group''\<rparr>)\<rparr>"

section \<open>Properties\<close>

subsection \<open>Values, objects and maps\<close>

lemmas msg_defs = msgError_def msgTransforms_def msgScene_def msgPing_def msgUntyped_def
  msgOddType_def msgOddError_def msgPoison_def

lemma sameValueZero_primitive: "primitive k \<Longrightarrow> sameValueZero a k = (a = k)"
  by (auto simp: sameValueZero_def)

lemma mapGet_mapSet:
  "mapGet (mapSet m a v) k = (if sameValueZero a k then Some v else mapGet m k)"
  by (induction m) (auto simp: sameValueZero_def)

lemma own_append: "own (p @ u) f = (case own u f of Some v \<Rightarrow> Some v | None \<Rightarrow> own p f)"
  by (simp add: own_def map_add_def split: option.splits)

lemma field_append: "field (p @ u) f = (case own u f of Some v \<Rightarrow> v | None \<Rightarrow> field p f)"
  by (simp add: field_def own_append split: option.splits)

lemma own_single: "own [(g, v)] f = (if f = g then Some v else None)"
  by (simp add: own_def)

lemma field_spread: "f \<noteq> ''length'' \<Longrightarrow> field (spread v) f = getProp v f"
  by (cases v) (simp_all add: field_def own_def)

subsection \<open>Buffering\<close>

lemma collectArray_filter: "collectArray d xs = map (arrayEntry d) (filter kept xs)"
  by (induction xs) (auto simp: kept_def)

lemma mapGet_mergeUpdate:
  "primitive k \<Longrightarrow>
   mapGet (mergeUpdate u pend) k =
     (if updKey u = k then overlay (mapGet pend k) [u] else mapGet pend k)"
  by (auto simp: mergeUpdate_def updKey_def Let_def mapGet_mapSet sameValueZero_primitive
           split: option.splits)

lemma fold_mergeUpdate_overlay:
  "primitive k \<Longrightarrow>
   mapGet (fold mergeUpdate us pend) k = overlay (mapGet pend k) (filter (\<lambda>u. updKey u = k) us)"
proof (induction us arbitrary: pend)
  case Nil
  then show ?case by simp
next
  case (Cons u us)
  show ?case
  proof (cases "updKey u = k")
    case True
    then show ?thesis
      using Cons by (simp add: mapGet_mergeUpdate)
  next
    case False
    then show ?thesis
      using Cons by (simp add: mapGet_mergeUpdate)
  qed
qed

lemma own_arrayEntry:
  "own (arrayEntry d it) f =
     (if f = ''layerId'' then Some (coalesce (getProp it ''layerId'') d) else own (spread it) f)"
  by (simp add: arrayEntry_def own_append own_single)

lemma updKey_arrayEntry:
  "updKey (arrayEntry d it) = coalesce (getProp it ''id'') (getProp it ''name'')"
  by (simp add: updKey_def arrayEntry_def field_append own_single field_spread)

lemma own_recordEntry:
  "own (recordEntry d objs key) f =
     (if f = ''layerId'' then Some (coalesce (getProp (getProp objs key) ''layerId'') d)
      else if f = ''name'' then Some (coalesce (getProp (getProp objs key) ''name'') (JStr key))
      else if f = ''id'' then Some (getProp (getProp objs key) ''id'')
      else own (spread (js_or (getProp objs key) (JObj []))) f)"
  by (simp add: recordEntry_def Let_def own_append own_def)

lemma updKey_recordEntry:
  "updKey (recordEntry d objs key) =
     coalesce (getProp (getProp objs key) ''id'')
       (coalesce (getProp (getProp objs key) ''name'') (JStr key))"
  by (simp add: updKey_def field_def own_recordEntry)

lemma pending_scheduleFlush: "pending (scheduleFlush s) = pending s"
  by (simp add: scheduleFlush_def split: option.splits)

text \<open>
  C1, as stated, fails: a field absent from the newest update is not always retained.
  The buffer holds an update of object 7 with \<^verbatim>\<open>layerId: "A"\<close>; a batch without a default
  layer brings an entry for object 7 that has no \<^verbatim>\<open>layerId\<close>; afterwards the buffered
  update's \<^verbatim>\<open>layerId\<close> is undefined, since the literal
  \<^verbatim>\<open>{ ...it, layerId: it.layerId ?? defaultLayerId }\<close> always defines the field.
\<close>

theorem enqueuePhysics_layerId_counterexample:
  "own (spread rotOnly) ''layerId'' = None \<and>
   map_option (\<lambda>u. field u ''layerId'') (mapGet (pending bufferedA) (JNum 7)) = Some (JStr ''A'') \<and>
   map_option (\<lambda>u. field u ''layerId'')
     (mapGet (pending (enqueuePhysics (JArr [rotOnly]) JUndefined bufferedA)) (JNum 7)) =
     Some JUndefined"
  by (simp add: bufferedA_def rotOnly_def testComp_def enqueuePhysics_def scheduleFlush_def
        mergeUpdate_def arrayEntry_def coalesce_def field_def own_def strictEq_def sameValueZero_def Let_def)

text \<open>
  C1, amended. \<open>enqueuePhysics\<close> buffers updates in a map keyed by id or name, last write
  wins. For a key \<open>k\<close> (a string, a number), the buffered entry after a batch is the entry
  before, overlaid in order by the normalised updates of the batch whose key is \<open>k\<close>:
  the array entries that are truthy and have an id or a name, or one update per key of
  the record form. The key of an update is its id if present, else its name, and for the
  record form the record key when the entry has no name. In an overlay a field the
  newest normalised update defines overrides the buffered one, and any other field is
  retained. The normalised update defines the fields of the incoming entry and always
  \<^verbatim>\<open>layerId\<close> (the entry's, else the default layer of the batch, else undefined); for the
  record form it always defines \<^verbatim>\<open>id\<close> and \<^verbatim>\<open>name\<close> as well. So every field but these
  is retained when the newest entry lacks it, and a buffered \<^verbatim>\<open>layerId\<close> never is.
\<close>

theorem enqueuePhysics_overlay:
  "primitive k \<Longrightarrow>
   mapGet (pending (enqueuePhysics (JArr xs) d st)) k =
     overlay (mapGet (pending st) k)
       (filter (\<lambda>u. updKey u = k) (map (arrayEntry d) (filter kept xs))) \<and>
   mapGet (pending (enqueuePhysics (JObj kvs) d st)) k =
     overlay (mapGet (pending st) k)
       (filter (\<lambda>u. updKey u = k) (map (recordEntry d (JObj kvs)) (objectKeys (JObj kvs)))) \<and>
   updKey (arrayEntry d it) = coalesce (getProp it ''id'') (getProp it ''name'') \<and>
   updKey (recordEntry d (JObj kvs) key) =
     coalesce (getProp (field kvs key) ''id'')
       (coalesce (getProp (field kvs key) ''name'') (JStr key)) \<and>
   field (p @ u) f = (case own u f of Some v \<Rightarrow> v | None \<Rightarrow> field p f) \<and>
   own (arrayEntry d it) f =
     (if f = ''layerId'' then Some (coalesce (getProp it ''layerId'') d) else own (spread it) f) \<and>
   own (recordEntry d (JObj kvs) key) f =
     (if f = ''layerId'' then Some (coalesce (getProp (field kvs key) ''layerId'') d)
      else if f = ''name'' then Some (coalesce (getProp (field kvs key) ''name'') (JStr key))
      else if f = ''id'' then Some (getProp (field kvs key) ''id'')
      else own (spread (js_or (field kvs key) (JObj []))) f)"
proof -
  assume k: "primitive k"
  have a: "mapGet (pending (enqueuePhysics (JArr xs) d st)) k =
     overlay (mapGet (pending st) k)
       (filter (\<lambda>u. updKey u = k) (map (arrayEntry d) (filter kept xs)))"
    using k
    by (simp add: enqueuePhysics_def pending_scheduleFlush fold_mergeUpdate_overlay
          collectArray_filter)
  have b: "mapGet (pending (enqueuePhysics (JObj kvs) d st)) k =
     overlay (mapGet (pending st) k)
       (filter (\<lambda>u. updKey u = k) (map (recordEntry d (JObj kvs)) (objectKeys (JObj kvs))))"
    using k by (simp add: enqueuePhysics_def pending_scheduleFlush fold_mergeUpdate_overlay)
  show ?thesis
    using a b updKey_arrayEntry [of d it] updKey_recordEntry [of d "JObj kvs" key]
      field_append [of p u f] own_arrayEntry [of d it f] own_recordEntry [of d "JObj kvs" key f]
    by simp
qed

theorem enqueuePhysics_overlay_witness:
  "primitive (JNum 7) \<and>
   mapGet (pending (enqueuePhysics (JArr [rotOnly]) (JStr ''B'') bufferedA)) (JNum 7) =
     Some [(''id'', JNum 7), (''layerId'', JStr ''A''), (''pos'', JArr [JNum 1, JNum 2, JNum 3]),
           (''id'', JNum 7), (''rot'', JArr [JNum 0, JNum 0, JNum 0, JNum 1]),
           (''layerId'', JStr ''B'')]"
proof -
  have p: "primitive (JNum 7)" by simp
  show ?thesis
    using p enqueuePhysics_overlay [OF p, THEN conjunct1, of "[rotOnly]" "JStr ''B''" bufferedA]
    by (simp add: bufferedA_def rotOnly_def testComp_def kept_def updKey_def arrayEntry_def
          coalesce_def field_def own_def strictEq_def sameValueZero_def)
qed

subsection \<open>One flush per animation frame\<close>

lemma sameControl_refl: "sameControl st st"
  by (simp add: sameControl_def)

lemma sameControl_trans: "sameControl a b \<Longrightarrow> sameControl b c \<Longrightarrow> sameControl a c"
  by (simp add: sameControl_def)

lemma sameControl_log: "sameControl a b \<Longrightarrow> sameControl a (log_msg E m b)"
  by (simp add: sameControl_def log_msg_def)

lemma sameControl_rebuild: "sameControl a b \<Longrightarrow> sameControl a (rebuildObjectIndex E b)"
  by (simp add: sameControl_def rebuildObjectIndex_def log_msg_def Let_def split: option.splits)

lemma sameControl_resolve: "sameControl a b \<Longrightarrow> sameControl a (snd (resolveObject E k b))"
  using sameControl_rebuild [of a b E]
  by (simp add: resolveObject_def Let_def sameControl_def split: option.splits jsval.splits)

lemma sameControl_callIso: "sameControl a b \<Longrightarrow> sameControl a (callIso f b)"
  by (auto simp: sameControl_def callIso_def split: option.splits prod.splits)

lemma sameControl_setPosition: "sameControl a b \<Longrightarrow> sameControl a (setPosition x p b)"
  by (simp add: sameControl_def setPosition_def)

lemma sameControl_setQuaternion: "sameControl a b \<Longrightarrow> sameControl a (setQuaternion x q b)"
  by (simp add: sameControl_def setQuaternion_def)

lemma sameControl_setMatrixFlags: "sameControl a b \<Longrightarrow> sameControl a (setMatrixFlags x b)"
  by (simp add: sameControl_def setMatrixFlags_def)

lemma sameControl_apply: "sameControl a b \<Longrightarrow> sameControl a (snd (applyOneUpdateTo E t u b))"
  unfolding applyOneUpdateTo_def Let_def
  by (auto split: option.splits
        intro!: sameControl_callIso sameControl_setMatrixFlags sameControl_setQuaternion
                sameControl_setPosition)

lemma sameControl_flushLoop:
  "sameControl a st \<Longrightarrow> sameControl a (snd (snd (flushLoop E L pend n st)))"
proof (induction pend arbitrary: n st)
  case Nil
  then show ?case by simp
next
  case (Cons ku pend)
  obtain key u where ku: "ku = (key, u)" by (cases ku)
  obtain r st1 where r: "resolveObject E key st = (r, st1)" by (cases "resolveObject E key st")
  have s1: "sameControl a st1" using sameControl_resolve [OF Cons.prems, of E key] r by simp
  show ?case
  proof (cases r)
    case None
    then show ?thesis using ku r Cons.IH [OF s1] by simp
  next
    case (Some ob)
    obtain ex st2 where ap: "applyOneUpdateTo E ob u st1 = (ex, st2)"
      by (cases "applyOneUpdateTo E ob u st1")
    have s2: "sameControl a st2"
      using sameControl_apply [OF s1, of E ob u] ap by simp
    show ?thesis
      using ku r Some ap s2 Cons.IH [OF s1] Cons.IH [OF s2]
      by (auto split: option.splits)
  qed
qed

lemma flushPending_control:
  "rafHandle (snd (flushPending E st)) = rafHandle st \<and>
   frameRequests (snd (flushPending E st)) = frameRequests st \<and>
   handles (snd (flushPending E st)) = handles st \<and>
   layerId (snd (flushPending E st)) = layerId st \<and>
   (iso (snd (flushPending E st)) = None) = (iso st = None)"
proof (cases "iso st = None \<or> pending st = []")
  case True
  then show ?thesis by (auto simp: flushPending_def)
next
  case False
  obtain ex n st1 where l: "flushLoop E (layerId st) (pending st) 0 st = (ex, n, st1)"
    by (cases "flushLoop E (layerId st) (pending st) 0 st")
  have s1: "sameControl st st1"
    using sameControl_flushLoop [OF sameControl_refl, of st E "layerId st" "pending st" 0] l
    by simp
  show ?thesis
    using False l s1
    by (auto simp: flushPending_def Let_def sameControl_def log_msg_def callIso_def
             split: option.splits prod.splits)
qed

lemma rafInv_scheduleFlush: "rafInv st \<Longrightarrow> rafInv (scheduleFlush st)"
  by (auto simp: rafInv_def scheduleFlush_def split: option.splits)

lemma rafInv_enqueue: "rafInv st \<Longrightarrow> rafInv (enqueuePhysics objs d st)"
proof -
  assume i: "rafInv st"
  have "\<And>p. rafInv (st\<lparr>pending := p\<rparr>)" using i by (simp add: rafInv_def)
  then show ?thesis
    by (cases objs) (simp_all add: enqueuePhysics_def i rafInv_scheduleFlush)
qed

lemma rafInv_fold:
  "rafInv st \<Longrightarrow> rafInv (fold (\<lambda>c. enqueuePhysics (fst c) (snd c)) calls st)"
  by (induction calls arbitrary: st) (simp_all add: rafInv_enqueue)

lemma frame_runs: "length (fst (runCallbacks E hs st)) = length hs"
proof (induction hs arbitrary: st)
  case Nil
  then show ?case by simp
next
  case (Cons h hs)
  obtain ex st1 where c: "rafCallback E st = (ex, st1)" by (cases "rafCallback E st")
  obtain exs st2 where r: "runCallbacks E hs st1 = (exs, st2)" by (cases "runCallbacks E hs st1")
  show ?case using c r Cons [of st1] by simp
qed

lemma rafCallback_control:
  "rafHandle (snd (rafCallback E st)) = None \<and>
   frameRequests (snd (rafCallback E st)) = frameRequests st"
  using flushPending_control [of E "st\<lparr>rafHandle := None\<rparr>"]
  by (simp add: rafCallback_def)

text \<open>
  C2. Buffered updates are applied at most once per animation frame. \<open>enqueuePhysics\<close>
  requests a frame callback only when \<open>rafHandle\<close> is null (and the batch is an array or
  an object). So, from a state where the browser holds a callback of the component
  exactly when \<open>rafHandle\<close> is set, after any number of calls of \<open>enqueuePhysics\<close> the
  browser holds at most one callback: the next animation frame runs the callback, and so
  \<open>flushPending\<close>, at most once. The callback sets \<open>rafHandle\<close> to null before it calls
  \<open>flushPending\<close>, and after the frame \<open>rafHandle\<close> is null and no callback is left.
\<close>

theorem flush_once_per_frame:
  "rafInv st \<Longrightarrow>
   st1 = fold (\<lambda>c. enqueuePhysics (fst c) (snd c)) calls st \<Longrightarrow>
   rafInv st1 \<and>
   length (fst (animationFrame E st1)) \<le> 1 \<and>
   length (fst (animationFrame E st1)) = length (frameRequests st1) \<and>
   rafCallback E st1 = flushPending E (st1\<lparr>rafHandle := None\<rparr>) \<and>
   rafHandle (snd (animationFrame E st1)) = None \<and>
   frameRequests (snd (animationFrame E st1)) = [] \<and>
   frameRequests (enqueuePhysics objs d st1) =
     (if rafHandle st1 = None \<and> (case objs of JArr xs \<Rightarrow> True | JObj kvs \<Rightarrow> True | _ \<Rightarrow> False)
      then frameRequests st1 @ [Suc (handles st1)] else frameRequests st1)"
proof -
  assume i: "rafInv st" and e: "st1 = fold (\<lambda>c. enqueuePhysics (fst c) (snd c)) calls st"
  have i1: "rafInv st1" using i e by (simp add: rafInv_fold)
  have len: "length (fst (animationFrame E st1)) = length (frameRequests st1)"
    by (simp add: animationFrame_def frame_runs)
  have le: "length (frameRequests st1) \<le> 1"
    using i1 by (simp add: rafInv_def split: option.splits)
  have after: "rafHandle (snd (animationFrame E st1)) = None \<and>
               frameRequests (snd (animationFrame E st1)) = []"
  proof (cases "rafHandle st1")
    case None
    then show ?thesis using i1 by (simp add: rafInv_def animationFrame_def)
  next
    case (Some h)
    then have fr: "frameRequests st1 = [h]" using i1 by (simp add: rafInv_def)
    obtain ex st2 where c: "rafCallback E (st1\<lparr>frameRequests := []\<rparr>) = (ex, st2)"
      by (cases "rafCallback E (st1\<lparr>frameRequests := []\<rparr>)")
    show ?thesis
      using rafCallback_control [of E "st1\<lparr>frameRequests := []\<rparr>"] fr c
      by (simp add: animationFrame_def)
  qed
  have sched: "frameRequests (enqueuePhysics objs d st1) =
     (if rafHandle st1 = None \<and> (case objs of JArr xs \<Rightarrow> True | JObj kvs \<Rightarrow> True | _ \<Rightarrow> False)
      then frameRequests st1 @ [Suc (handles st1)] else frameRequests st1)"
    by (cases objs) (auto simp: enqueuePhysics_def scheduleFlush_def split: option.splits)
  show ?thesis
    using i1 len le after sched by (simp add: rafCallback_def)
qed

theorem flush_once_per_frame_witness:
  "rafInv testComp \<and>
   frameRequests (fold (\<lambda>c. enqueuePhysics (fst c) (snd c)) threeCalls testComp) = [1] \<and>
   length (fst (animationFrame testEnv
     (fold (\<lambda>c. enqueuePhysics (fst c) (snd c)) threeCalls testComp))) = 1 \<and>
   rafHandle (snd (animationFrame testEnv
     (fold (\<lambda>c. enqueuePhysics (fst c) (snd c)) threeCalls testComp))) = None"
proof -
  have i: "rafInv testComp" by (simp add: rafInv_def testComp_def)
  have f: "frameRequests (fold (\<lambda>c. enqueuePhysics (fst c) (snd c)) threeCalls testComp) = [1]"
    by (simp add: threeCalls_def rotOnly_def testComp_def enqueuePhysics_def scheduleFlush_def)
  show ?thesis
    using i f flush_once_per_frame [OF i refl, of threeCalls testEnv] by simp
qed

subsection \<open>Transforms\<close>

lemma heap_log: "heap (log_msg E m st) = heap st \<and> iso (log_msg E m st) = iso st"
  by (simp add: log_msg_def)

lemma heap_rebuild:
  "heap (rebuildObjectIndex E st) = heap st \<and> iso (rebuildObjectIndex E st) = iso st"
  by (simp add: rebuildObjectIndex_def log_msg_def Let_def split: option.splits)

lemma heap_resolve:
  "heap (snd (resolveObject E k st)) = heap st \<and> iso (snd (resolveObject E k st)) = iso st"
  using heap_rebuild [of E st]
  by (simp add: resolveObject_def Let_def split: option.splits jsval.splits)

lemma callIso_keeps:
  assumes "\<And>g. f = Some g \<Longrightarrow> \<forall>w. keepsTransforms w (g w)"
  shows "position (heap (callIso f st) a) = position (heap st a) \<and>
         quaternion (heap (callIso f st) a) = quaternion (heap st a)"
proof (cases "iso st")
  case None
  then show ?thesis by (simp add: callIso_def)
next
  case (Some c)
  show ?thesis
  proof (cases f)
    case None
    then show ?thesis using Some by (simp add: callIso_def)
  next
    case g: (Some g)
    obtain h' c' where r: "g (heap st, c) = (h', c')" by (cases "g (heap st, c)")
    have "keepsTransforms (heap st, c) (g (heap st, c))" using assms [OF g] by simp
    then have "position (h' a) = position (heap st a) \<and> quaternion (h' a) = quaternion (heap st a)"
      using r by (simp add: keepsTransforms_def)
    then show ?thesis using Some g r by (simp add: callIso_def)
  qed
qed

lemma hooks_setTransform:
  "hooksKeepTransforms E \<Longrightarrow> setTransform E = Some g \<Longrightarrow> keepsTransforms w (g a p q w)"
  unfolding hooksKeepTransforms_def by (auto simp del: split_paired_All)

lemma hooks_changed:
  "hooksKeepTransforms E \<Longrightarrow> onObjectTransformChanged E = Some g \<Longrightarrow> keepsTransforms w (g a w)"
  unfolding hooksKeepTransforms_def by (auto simp del: split_paired_All)

lemma hooks_render:
  "hooksKeepTransforms E \<Longrightarrow> renderScene E = Some g \<Longrightarrow> keepsTransforms w (g w)"
  unfolding hooksKeepTransforms_def by (auto simp del: split_paired_All)

lemma callIso_setTransform:
  "hooksKeepTransforms E \<Longrightarrow>
   position (heap (callIso (map_option (\<lambda>g. g x p q) (setTransform E)) st) a) = position (heap st a) \<and>
   quaternion (heap (callIso (map_option (\<lambda>g. g x p q) (setTransform E)) st) a) = quaternion (heap st a)"
  by (rule callIso_keeps) (auto simp del: split_paired_All intro: hooks_setTransform)

lemma callIso_changed:
  "hooksKeepTransforms E \<Longrightarrow>
   position (heap (callIso (map_option (\<lambda>g. g x) (onObjectTransformChanged E)) st) a) = position (heap st a) \<and>
   quaternion (heap (callIso (map_option (\<lambda>g. g x) (onObjectTransformChanged E)) st) a) = quaternion (heap st a)"
  by (rule callIso_keeps) (auto simp del: split_paired_All intro: hooks_changed)

lemma callIso_render:
  "hooksKeepTransforms E \<Longrightarrow>
   position (heap (callIso (renderScene E) st) a) = position (heap st a) \<and>
   quaternion (heap (callIso (renderScene E) st) a) = quaternion (heap st a)"
  by (rule callIso_keeps) (auto simp del: split_paired_All intro: hooks_render)

lemma apply_throws: "fst (applyOneUpdateTo E t u st) = fst (newOrientation E u)"
  by (simp add: applyOneUpdateTo_def Let_def split: option.splits)

lemma apply_writes:
  assumes h: "hooksKeepTransforms E"
  shows "position (heap (snd (applyOneUpdateTo E t u st)) a) =
     (if a = applyTarget (heap st) t
      then (case newPosition (position (heap st a)) u of Some p \<Rightarrow> p | None \<Rightarrow> position (heap st a))
      else position (heap st a)) \<and>
   quaternion (heap (snd (applyOneUpdateTo E t u st)) a) =
     (if a = applyTarget (heap st) t
      then (case snd (newOrientation E u) of Some q \<Rightarrow> q | None \<Rightarrow> quaternion (heap st a))
      else quaternion (heap st a))"
  by (simp add: applyOneUpdateTo_def Let_def callIso_setTransform [OF h] callIso_changed [OF h]
        setMatrixFlags_def setQuaternion_def setPosition_def
      split: option.splits)

lemma apply_other:
  assumes h: "hooksKeepTransforms E" and a: "a \<noteq> applyTarget (heap st) t"
  shows "position (heap (snd (applyOneUpdateTo E t u st)) a) = position (heap st a) \<and>
         quaternion (heap (snd (applyOneUpdateTo E t u st)) a) = quaternion (heap st a)"
  using apply_writes [OF h, of t u st a] a by simp

lemma isNumber_converts: "isNumber v \<Longrightarrow> \<not> unprintable v"
  by (cases v) simp_all

lemma getIdx_three:
  "getIdx (JArr [a, b, c]) 0 = a \<and> getIdx (JArr [a, b, c]) (Suc 0) = b \<and>
   getIdx (JArr [a, b, c]) 2 = c"
  by (simp add: getIdx_def string_of_nat.simps digit_def field_def own_def)

lemma getIdx_four:
  "getIdx (JArr [a, b, c, d]) 0 = a \<and> getIdx (JArr [a, b, c, d]) (Suc 0) = b \<and>
   getIdx (JArr [a, b, c, d]) 2 = c \<and> getIdx (JArr [a, b, c, d]) 3 = d"
  by (simp add: getIdx_def string_of_nat.simps digit_def field_def own_def)

lemma numberArray_three:
  "numberArray 3 v \<Longrightarrow> \<exists>a b c. v = JArr [a, b, c] \<and> isNumber a \<and> isNumber b \<and> isNumber c"
proof -
  assume n: "numberArray 3 v"
  then obtain xs where v: "v = JArr xs" and l: "length xs = 3" and a: "list_all isNumber xs"
    by (cases v) (simp_all add: numberArray_def)
  obtain a b c where xs: "xs = [a, b, c]"
    using l by (auto simp: numeral_3_eq_3 length_Suc_conv)
  show ?thesis using v xs a by simp
qed

lemma numberArray_four:
  "numberArray 4 v \<Longrightarrow>
   \<exists>a b c d. v = JArr [a, b, c, d] \<and> isNumber a \<and> isNumber b \<and> isNumber c \<and> isNumber d"
proof -
  assume n: "numberArray 4 v"
  then obtain xs where v: "v = JArr xs" and l: "length xs = 4" and a: "list_all isNumber xs"
    by (cases v) (simp_all add: numberArray_def)
  have "length xs = Suc (Suc (Suc (Suc 0)))" using l by simp
  then obtain a b c d where xs: "xs = [a, b, c, d]"
    by (auto simp: length_Suc_conv)
  show ?thesis using v xs a by simp
qed

lemma numbersAt_rotation:
  "numbersAt [''x'', ''y'', ''z'', ''w''] r \<Longrightarrow>
   quaternionChanged E (getProp r ''x'', getProp r ''y'', getProp r ''z'', getProp r ''w'') = None"
  by (cases r) (simp_all add: numbersAt_def quaternionChanged_def isNumber_converts)

lemma numberArray_quaternion:
  "numberArray 4 v \<Longrightarrow> quaternionChanged E (getIdx v 0, getIdx v 1, getIdx v 2, getIdx v 3) = None"
  using numberArray_four [of v]
  by (auto simp: getIdx_four quaternionChanged_def isNumber_converts)

lemma numberArray_angles:
  "numberArray 3 v \<Longrightarrow>
   destructure3 E v = Inr (getIdx v 0, getIdx v 1, getIdx v 2) \<and>
   anglesConvert (getIdx v 0) (getIdx v 1) (getIdx v 2)"
  using numberArray_three [of v]
  by (auto simp: getIdx_three anglesConvert_def isNumber_converts)

lemma numberArray_length:
  "numberArray n v \<Longrightarrow> getProp v ''length'' = JNum (real n)"
  by (cases v) (simp_all add: numberArray_def)

lemma declaredType_orientation: "declaredType u \<Longrightarrow> fst (newOrientation E u) = None"
proof -
  assume d: "declaredType u"
  have r: "truthy (field u ''rotation'') \<Longrightarrow> numbersAt [''x'', ''y'', ''z'', ''w''] (field u ''rotation'')"
    using d by (cases "field u ''rotation''") (auto simp: declaredType_def)
  have e: "truthy (field u ''eulerDeg'') \<Longrightarrow> numberArray 3 (field u ''eulerDeg'')"
    using d by (cases "field u ''eulerDeg''") (auto simp: declaredType_def)
  have t: "truthy (field u ''rot'') \<Longrightarrow>
           numberArray 4 (field u ''rot'') \<or> numberArray 3 (field u ''rot'')"
    using d by (cases "field u ''rot''") (auto simp: declaredType_def)
  have 1: "truthy (field u ''rotation'') \<longrightarrow>
      quaternionChanged E (getProp (field u ''rotation'') ''x'', getProp (field u ''rotation'') ''y'',
        getProp (field u ''rotation'') ''z'', getProp (field u ''rotation'') ''w'') = None"
    using r numbersAt_rotation by blast
  have 2: "truthy (field u ''rot'') \<and> strictEq (getProp (field u ''rot'') ''length'') (JNum 4) \<longrightarrow>
      quaternionChanged E (getIdx (field u ''rot'') 0, getIdx (field u ''rot'') 1,
        getIdx (field u ''rot'') 2, getIdx (field u ''rot'') 3) = None"
  proof
    assume a: "truthy (field u ''rot'') \<and> strictEq (getProp (field u ''rot'') ''length'') (JNum 4)"
    then have "numberArray 4 (field u ''rot'')"
      using t numberArray_length [of 3 "field u ''rot''"] by (auto simp: strictEq_def)
    then show "quaternionChanged E (getIdx (field u ''rot'') 0, getIdx (field u ''rot'') 1,
        getIdx (field u ''rot'') 2, getIdx (field u ''rot'') 3) = None"
      by (rule numberArray_quaternion)
  qed
  have 3: "truthy (field u ''eulerDeg'') \<longrightarrow>
      destructure3 E (field u ''eulerDeg'') =
        Inr (getIdx (field u ''eulerDeg'') 0, getIdx (field u ''eulerDeg'') 1,
             getIdx (field u ''eulerDeg'') 2) \<and>
      anglesConvert (getIdx (field u ''eulerDeg'') 0) (getIdx (field u ''eulerDeg'') 1)
        (getIdx (field u ''eulerDeg'') 2)"
    using e numberArray_angles by blast
  have 4: "truthy (field u ''rot'') \<and> strictEq (getProp (field u ''rot'') ''length'') (JNum 3) \<longrightarrow>
      destructure3 E (field u ''rot'') =
        Inr (getIdx (field u ''rot'') 0, getIdx (field u ''rot'') 1, getIdx (field u ''rot'') 2) \<and>
      anglesConvert (getIdx (field u ''rot'') 0) (getIdx (field u ''rot'') 1)
        (getIdx (field u ''rot'') 2)"
  proof
    assume a: "truthy (field u ''rot'') \<and> strictEq (getProp (field u ''rot'') ''length'') (JNum 3)"
    then have "numberArray 3 (field u ''rot'')"
      using t numberArray_length [of 4 "field u ''rot''"] by (auto simp: strictEq_def)
    then show "destructure3 E (field u ''rot'') =
        Inr (getIdx (field u ''rot'') 0, getIdx (field u ''rot'') 1, getIdx (field u ''rot'') 2) \<and>
      anglesConvert (getIdx (field u ''rot'') 0) (getIdx (field u ''rot'') 1)
        (getIdx (field u ''rot'') 2)"
      by (rule numberArray_angles)
  qed
  show ?thesis
    using 1 2 3 4 by (auto simp: newOrientation_def Let_def)
qed

lemma declaredType_apply: "declaredType u \<Longrightarrow> fst (applyOneUpdateTo E t u st) = None"
  by (simp add: apply_throws declaredType_orientation)

lemma destructure3_elements:
  "destructure3 E v = Inr t \<Longrightarrow> t = (getIdx v 0, getIdx v 1, getIdx v 2)"
  by (cases v) auto

lemma newOrientation_normal:
  "fst (newOrientation E u) = None \<Longrightarrow>
   snd (newOrientation E u) =
     (if truthy (field u ''rotation'')
      then Some (getProp (field u ''rotation'') ''x'', getProp (field u ''rotation'') ''y'',
                 getProp (field u ''rotation'') ''z'', getProp (field u ''rotation'') ''w'')
      else if truthy (field u ''rot'') \<and> strictEq (getProp (field u ''rot'') ''length'') (JNum 4)
      then Some (getIdx (field u ''rot'') 0, getIdx (field u ''rot'') 1,
                 getIdx (field u ''rot'') 2, getIdx (field u ''rot'') 3)
      else if truthy (field u ''eulerDeg'') \<and>
              strictEq (getProp (field u ''eulerDeg'') ''length'') (JNum 3)
      then Some (setFromEuler E (degToRad E (getIdx (field u ''eulerDeg'') 0))
                   (degToRad E (getIdx (field u ''eulerDeg'') 1))
                   (degToRad E (getIdx (field u ''eulerDeg'') 2)) ''XYZ'')
      else if truthy (field u ''rot'') \<and> strictEq (getProp (field u ''rot'') ''length'') (JNum 3)
      then Some (setFromEuler E (getIdx (field u ''rot'') 0) (getIdx (field u ''rot'') 1)
                   (getIdx (field u ''rot'') 2) ''XYZ'')
      else None)"
  by (auto simp: newOrientation_def Let_def split: sum.splits if_splits prod.splits
           dest!: destructure3_elements)

lemma option_chain:
  "(case (if A then Some a else if B then Some b else if C then Some c
          else if D then Some d else None) of
      None \<Rightarrow> z
    | Some q \<Rightarrow> q) =
   (if A then a else if B then b else if C then c else if D then d else z)"
  by simp

lemma hooks_test: "hooksKeepTransforms testEnv"
  by (simp add: hooksKeepTransforms_def testEnv_def keepsTransforms_def)

lemmas eval_defs = resolveObject_def testComp_def getThreeScene_def testIso_def
  getObjectByName_def testHeap_def ball_def blank_def
  layerMismatch_def objLayer_def otherLayer_def moveBall_def
  field_def own_def js_or_def coalesce_def strictEq_def sameValueZero_def Let_def
  rebuildObjectIndex_def indexNamed_def indexEntry_def entryObject_def ballEntry_def
  log_msg_def flushPending_def applyOneUpdateTo_def applyTarget_def newPosition_def
  Vector3_set_def newOrientation_def quaternionChanged_def anglesConvert_def
  setPosition_def setQuaternion_def setMatrixFlags_def callIso_def
  testEnv_def getIdx_def string_of_nat.simps digit_def

text \<open>
  C5. \<open>applyOneUpdateTo\<close> accepts the tolerant formats with a fixed precedence. The object
  written is the target, or its parent when the parent is a group of the same name;
  IsoCard's optional methods are assumed not to move objects. The position becomes the
  \<^verbatim>\<open>position\<close> object's x, y and z if \<^verbatim>\<open>position\<close> is present (the engine keeps the old z
  when the object has none), else the elements 0, 1, 2 of \<^verbatim>\<open>pos\<close> if present, else it
  is unchanged. When the call returns, the quaternion is the \<^verbatim>\<open>rotation\<close> object's x, y,
  z, w if present, else the four elements of a \<^verbatim>\<open>rot\<close> of length 4, else the engine's
  quaternion for the Euler angles of an \<^verbatim>\<open>eulerDeg\<close> of length 3, each multiplied by pi
  and divided by 180, in the order XYZ, else the one for a \<^verbatim>\<open>rot\<close> of length 3 taken as
  radians in the order XYZ, else unchanged. (Present means truthy.) The call does return
  for every update whose transform fields are of the declared type. No other object is
  moved.
\<close>

theorem applyOneUpdateTo_precedence:
  "hooksKeepTransforms E \<Longrightarrow> ob = applyTarget (heap st) target \<Longrightarrow>
   st' = snd (applyOneUpdateTo E target u st) \<Longrightarrow>
   position (heap st' ob) =
     (if truthy (field u ''position'')
      then (getProp (field u ''position'') ''x'', getProp (field u ''position'') ''y'',
            if getProp (field u ''position'') ''z'' = JUndefined
            then snd (snd (position (heap st ob)))
            else getProp (field u ''position'') ''z'')
      else if truthy (field u ''pos'')
      then (getIdx (field u ''pos'') 0, getIdx (field u ''pos'') 1, getIdx (field u ''pos'') 2)
      else position (heap st ob)) \<and>
   (fst (applyOneUpdateTo E target u st) = None \<longrightarrow>
      quaternion (heap st' ob) =
        (if truthy (field u ''rotation'')
         then (getProp (field u ''rotation'') ''x'', getProp (field u ''rotation'') ''y'',
               getProp (field u ''rotation'') ''z'', getProp (field u ''rotation'') ''w'')
         else if truthy (field u ''rot'') \<and> strictEq (getProp (field u ''rot'') ''length'') (JNum 4)
         then (getIdx (field u ''rot'') 0, getIdx (field u ''rot'') 1,
               getIdx (field u ''rot'') 2, getIdx (field u ''rot'') 3)
         else if truthy (field u ''eulerDeg'') \<and>
                 strictEq (getProp (field u ''eulerDeg'') ''length'') (JNum 3)
         then setFromEuler E (degToRad E (getIdx (field u ''eulerDeg'') 0))
                (degToRad E (getIdx (field u ''eulerDeg'') 1))
                (degToRad E (getIdx (field u ''eulerDeg'') 2)) ''XYZ''
         else if truthy (field u ''rot'') \<and> strictEq (getProp (field u ''rot'') ''length'') (JNum 3)
         then setFromEuler E (getIdx (field u ''rot'') 0) (getIdx (field u ''rot'') 1)
                (getIdx (field u ''rot'') 2) ''XYZ''
         else quaternion (heap st ob))) \<and>
   (declaredType u \<longrightarrow> fst (applyOneUpdateTo E target u st) = None) \<and>
   degToRad E v = divide_js E (times E v (Math_PI E)) (JNum 180) \<and>
   (\<forall>a. a \<noteq> ob \<longrightarrow>
      position (heap st' a) = position (heap st a) \<and>
      quaternion (heap st' a) = quaternion (heap st a))"
proof -
  assume h: "hooksKeepTransforms E"
    and ob: "ob = applyTarget (heap st) target"
    and st': "st' = snd (applyOneUpdateTo E target u st)"
  have p: "position (heap st' ob) =
     (if truthy (field u ''position'')
      then (getProp (field u ''position'') ''x'', getProp (field u ''position'') ''y'',
            if getProp (field u ''position'') ''z'' = JUndefined
            then snd (snd (position (heap st ob)))
            else getProp (field u ''position'') ''z'')
      else if truthy (field u ''pos'')
      then (getIdx (field u ''pos'') 0, getIdx (field u ''pos'') 1, getIdx (field u ''pos'') 2)
      else position (heap st ob))"
    using apply_writes [OF h, of target u st ob] ob st'
    by (simp add: newPosition_def Vector3_set_def Let_def)
  have q: "fst (applyOneUpdateTo E target u st) = None \<longrightarrow>
      quaternion (heap st' ob) =
        (if truthy (field u ''rotation'')
         then (getProp (field u ''rotation'') ''x'', getProp (field u ''rotation'') ''y'',
               getProp (field u ''rotation'') ''z'', getProp (field u ''rotation'') ''w'')
         else if truthy (field u ''rot'') \<and> strictEq (getProp (field u ''rot'') ''length'') (JNum 4)
         then (getIdx (field u ''rot'') 0, getIdx (field u ''rot'') 1,
               getIdx (field u ''rot'') 2, getIdx (field u ''rot'') 3)
         else if truthy (field u ''eulerDeg'') \<and>
                 strictEq (getProp (field u ''eulerDeg'') ''length'') (JNum 3)
         then setFromEuler E (degToRad E (getIdx (field u ''eulerDeg'') 0))
                (degToRad E (getIdx (field u ''eulerDeg'') 1))
                (degToRad E (getIdx (field u ''eulerDeg'') 2)) ''XYZ''
         else if truthy (field u ''rot'') \<and> strictEq (getProp (field u ''rot'') ''length'') (JNum 3)
         then setFromEuler E (getIdx (field u ''rot'') 0) (getIdx (field u ''rot'') 1)
                (getIdx (field u ''rot'') 2) ''XYZ''
         else quaternion (heap st ob))"
  proof
    assume "fst (applyOneUpdateTo E target u st) = None"
    then have n: "fst (newOrientation E u) = None" by (simp add: apply_throws)
    have w: "quaternion (heap st' ob) =
               (case snd (newOrientation E u) of
                  None \<Rightarrow> quaternion (heap st ob)
                | Some q \<Rightarrow> q)"
      using apply_writes [OF h, of target u st ob] ob st' by simp
    show "quaternion (heap st' ob) =
        (if truthy (field u ''rotation'')
         then (getProp (field u ''rotation'') ''x'', getProp (field u ''rotation'') ''y'',
               getProp (field u ''rotation'') ''z'', getProp (field u ''rotation'') ''w'')
         else if truthy (field u ''rot'') \<and> strictEq (getProp (field u ''rot'') ''length'') (JNum 4)
         then (getIdx (field u ''rot'') 0, getIdx (field u ''rot'') 1,
               getIdx (field u ''rot'') 2, getIdx (field u ''rot'') 3)
         else if truthy (field u ''eulerDeg'') \<and>
                 strictEq (getProp (field u ''eulerDeg'') ''length'') (JNum 3)
         then setFromEuler E (degToRad E (getIdx (field u ''eulerDeg'') 0))
                (degToRad E (getIdx (field u ''eulerDeg'') 1))
                (degToRad E (getIdx (field u ''eulerDeg'') 2)) ''XYZ''
         else if truthy (field u ''rot'') \<and> strictEq (getProp (field u ''rot'') ''length'') (JNum 3)
         then setFromEuler E (getIdx (field u ''rot'') 0) (getIdx (field u ''rot'') 1)
                (getIdx (field u ''rot'') 2) ''XYZ''
         else quaternion (heap st ob))"
      by (simp only: w newOrientation_normal [OF n] option_chain)
  qed
  have t: "declaredType u \<longrightarrow> fst (applyOneUpdateTo E target u st) = None"
    using declaredType_apply by blast
  have others: "\<forall>a. a \<noteq> ob \<longrightarrow>
      position (heap st' a) = position (heap st a) \<and>
      quaternion (heap st' a) = quaternion (heap st a)"
    using apply_other [OF h, of _ st target u] ob st' by blast
  show ?thesis
    using p q t others by (simp add: degToRad_def)
qed

theorem applyOneUpdateTo_precedence_witness:
  "hooksKeepTransforms testEnv \<and> declaredType eulerUpdate \<and>
   applyTarget (heap testComp) 1 = 1 \<and>
   fst (applyOneUpdateTo testEnv 1 eulerUpdate testComp) = None \<and>
   position (heap (snd (applyOneUpdateTo testEnv 1 eulerUpdate testComp)) 1) =
     (JNum 1, JNum 2, JNum 3) \<and>
   quaternion (heap (snd (applyOneUpdateTo testEnv 1 eulerUpdate testComp)) 1) =
     setFromEuler testEnv (JNum (90 * pi / 180)) (JNum 0) (JNum 0) ''XYZ'' \<and>
   position (heap (snd (applyOneUpdateTo testEnv 1 flatMove testComp)) 1) =
     (JNum 5, JNum 6, JNum 0) \<and>
   applyTarget (heap grouped) 1 = 3 \<and>
   position (heap (snd (applyOneUpdateTo testEnv 1 eulerUpdate grouped)) 3) =
     (JNum 1, JNum 2, JNum 3) \<and>
   position (heap (snd (applyOneUpdateTo testEnv 1 eulerUpdate grouped)) 1) =
     (JNum 0, JNum 0, JNum 0)"
proof -
  have d: "declaredType eulerUpdate"
    by (simp add: declaredType_def numberArray_def eulerUpdate_def field_def own_def)
  have t: "applyTarget (heap testComp) 1 = 1"
    by (simp add: applyTarget_def testComp_def testHeap_def ball_def blank_def)
  have g: "applyTarget (heap grouped) 1 = 3"
    by (simp add: applyTarget_def grouped_def testComp_def testHeap_def ball_def blank_def)
  have p: "position (heap grouped 1) = (JNum 0, JNum 0, JNum 0) \<and>
           position (heap testComp 1) = (JNum 0, JNum 0, JNum 0)"
    by (simp add: grouped_def testComp_def testHeap_def ball_def blank_def)
  show ?thesis
    using hooks_test d t g p
      applyOneUpdateTo_precedence [OF hooks_test t [symmetric] refl, where v = "JNum 90"
        and u = eulerUpdate]
      applyOneUpdateTo_precedence [OF hooks_test t [symmetric] refl, where v = "JNum 90"
        and u = flatMove]
      applyOneUpdateTo_precedence [OF hooks_test g [symmetric] refl, where v = "JNum 90"
        and u = eulerUpdate]
    by (simp add: eulerUpdate_def flatMove_def field_def own_def getIdx_def string_of_nat.simps
          digit_def strictEq_def degToRad_def testEnv_def)
qed

subsection \<open>The flush and the buffer\<close>

lemma flushLoop_returns:
  "\<forall>ku \<in> set pend. declaredType (snd ku) \<Longrightarrow> fst (flushLoop E L pend n st) = None"
proof (induction pend arbitrary: n st)
  case Nil
  then show ?case by simp
next
  case (Cons ku pend)
  obtain key u where ku: "ku = (key, u)" by (cases ku)
  obtain r st1 where r: "resolveObject E key st = (r, st1)" by (cases "resolveObject E key st")
  have du: "declaredType u" using Cons.prems ku by simp
  have rest: "\<forall>ku \<in> set pend. declaredType (snd ku)" using Cons.prems by simp
  show ?case
  proof (cases r)
    case None
    then show ?thesis using ku r Cons.IH [OF rest] by simp
  next
    case (Some ob)
    obtain ex st2 where ap: "applyOneUpdateTo E ob u st1 = (ex, st2)"
      by (cases "applyOneUpdateTo E ob u st1")
    have "ex = None" using declaredType_apply [OF du, of E ob st1] ap by simp
    then show ?thesis
      using ku r Some ap Cons.IH [OF rest] by simp
  qed
qed

lemma flushPending_normal_drains:
  "iso st \<noteq> None \<Longrightarrow> fst (flushPending E st) = None \<Longrightarrow> pending (snd (flushPending E st)) = []"
proof -
  assume i: "iso st \<noteq> None" and n: "fst (flushPending E st) = None"
  show ?thesis
  proof (cases "pending st = []")
    case True
    then show ?thesis by (simp add: flushPending_def)
  next
    case False
    obtain ex k st1 where l: "flushLoop E (layerId st) (pending st) 0 st = (ex, k, st1)"
      by (cases "flushLoop E (layerId st) (pending st) 0 st")
    have "ex = None" using n i False l by (cases ex) (simp_all add: flushPending_def)
    then show ?thesis
      using i False l
      by (auto simp: flushPending_def Let_def log_msg_def callIso_def
               split: option.splits prod.splits)
  qed
qed

lemma flushPending_thrown_keeps:
  "fst (flushPending E st) \<noteq> None \<Longrightarrow> pending (snd (flushPending E st)) = pending st"
proof -
  assume t: "fst (flushPending E st) \<noteq> None"
  obtain ex k st1 where l: "flushLoop E (layerId st) (pending st) 0 st = (ex, k, st1)"
    by (cases "flushLoop E (layerId st) (pending st) 0 st")
  have s: "pending st1 = pending st"
    using sameControl_flushLoop [OF sameControl_refl, of st E "layerId st" "pending st" 0] l
    by (simp add: sameControl_def)
  show ?thesis
    using t l s by (cases ex) (auto simp: flushPending_def Let_def split: if_splits)
qed

text \<open>
  C9, as stated, fails: \<open>flushPending\<close> does not drain the buffer whenever it runs with an
  IsoCard instance. The message
  \<^verbatim>\<open>{"type":"TRANSFORMS","objects":[{"id":7,"pos":[1,2,3],"eulerDeg":{"length":3}}]}\<close>
  buffers an update of object 7 whose \<^verbatim>\<open>eulerDeg\<close> has a length of three and is not
  iterable. In the flush the update resolves to the ball and passes the layer guard,
  \<open>applyOneUpdateTo\<close> writes the position, and the destructuring
  \<^verbatim>\<open>const [ex, ey, ez] = u.eulerDeg\<close> throws a TypeError, which leaves \<open>flushPending\<close> before
  \<^verbatim>\<open>this.pending.clear()\<close>: the update is still buffered afterwards.
\<close>

theorem flushPending_poison_counterexample:
  "iso poisoned = Some testIso \<and>
   pending (onMessage testEnv msgPoison testComp) = pending poisoned \<and>
   fst (flushPending testEnv poisoned) = Some (Exn ''TypeError'' ''object is not iterable'') \<and>
   pending (snd (flushPending testEnv poisoned)) = pending poisoned \<and>
   length (pending poisoned) = 1 \<and>
   position (heap poisoned 1) = (JNum 0, JNum 0, JNum 0) \<and>
   position (heap (snd (flushPending testEnv poisoned)) 1) = (JNum 1, JNum 2, JNum 3)"
  by (simp add: poisoned_def poison_def eval_defs onMessage_def msgPoison_def testParse_def
        msg_defs toString_def physicsType_def enqueuePhysics_def scheduleFlush_def
        mergeUpdate_def arrayEntry_def)

text \<open>
  C9, amended. \<open>flushPending\<close> drains the buffer when it returns. When the IsoCard instance
  is null, \<open>flushPending\<close> returns at once and the buffer is as it was. When the instance
  is not null and \<open>flushPending\<close> returns, the pending map is empty, whatever became of the
  updates (applied, unresolved or skipped for their layer): none is retried. It does
  return when the transform fields of every buffered update are of the type \<open>OneUpdate\<close>
  declares (IsoCard's optional methods are taken to return). When the application of an
  update throws, the exception leaves \<open>flushPending\<close> before the buffer is cleared, and the
  buffer is as it was, the update that threw included.
\<close>

theorem flushPending_drains:
  "(iso st = None \<longrightarrow> flushPending E st = (None, st)) \<and>
   (iso st \<noteq> None \<and> fst (flushPending E st) = None \<longrightarrow> pending (snd (flushPending E st)) = []) \<and>
   (iso st \<noteq> None \<and> (\<forall>ku \<in> set (pending st). declaredType (snd ku)) \<longrightarrow>
      fst (flushPending E st) = None \<and> pending (snd (flushPending E st)) = []) \<and>
   (fst (flushPending E st) \<noteq> None \<longrightarrow> pending (snd (flushPending E st)) = pending st)"
proof -
  have a: "iso st = None \<longrightarrow> flushPending E st = (None, st)"
    by (simp add: flushPending_def)
  have c: "(\<forall>ku \<in> set (pending st). declaredType (snd ku)) \<Longrightarrow> fst (flushPending E st) = None"
  proof -
    assume d: "\<forall>ku \<in> set (pending st). declaredType (snd ku)"
    obtain ex k st1 where l: "flushLoop E (layerId st) (pending st) 0 st = (ex, k, st1)"
      by (cases "flushLoop E (layerId st) (pending st) 0 st")
    have "ex = None" using flushLoop_returns [OF d, of E "layerId st" 0 st] l by simp
    then show ?thesis using l by (simp add: flushPending_def Let_def)
  qed
  show ?thesis
    using a c flushPending_normal_drains [of st E] flushPending_thrown_keeps [of E st] by blast
qed

theorem flushPending_drains_witness:
  "iso (queued\<lparr>iso := None\<rparr>) = None \<and>
   flushPending testEnv (queued\<lparr>iso := None\<rparr>) = (None, queued\<lparr>iso := None\<rparr>) \<and>
   iso queued \<noteq> None \<and> pending queued = [(JNum 7, moveBall)] \<and> declaredType moveBall \<and>
   fst (flushPending testEnv queued) = None \<and> pending (snd (flushPending testEnv queued)) = [] \<and>
   fst (flushPending testEnv skippedOnly) = None \<and>
   pending (snd (flushPending testEnv skippedOnly)) = [] \<and>
   fst (flushPending testEnv poisoned) \<noteq> None \<and>
   pending (snd (flushPending testEnv poisoned)) = pending poisoned"
proof -
  have n: "iso (queued\<lparr>iso := None\<rparr>) = None" by simp
  have s: "iso queued \<noteq> None" by (simp add: queued_def testComp_def)
  have p: "pending queued = [(JNum 7, moveBall)]" by (simp add: queued_def)
  have d: "declaredType moveBall"
    by (simp add: declaredType_def numberArray_def moveBall_def field_def own_def)
  have k: "iso skippedOnly \<noteq> None \<and> pending skippedOnly = [(JStr ''ball'', otherLayer)] \<and>
           declaredType otherLayer"
    by (simp add: skippedOnly_def testComp_def declaredType_def numberArray_def otherLayer_def
          field_def own_def)
  have t: "fst (flushPending testEnv poisoned) \<noteq> None"
    by (simp add: poisoned_def poison_def eval_defs)
  show ?thesis
    using n s p d k t flushPending_drains [of "queued\<lparr>iso := None\<rparr>" testEnv]
      flushPending_drains [of queued testEnv]
      flushPending_drains [of skippedOnly testEnv]
      flushPending_drains [of poisoned testEnv]
    by simp
qed

subsection \<open>The layer guard\<close>

lemma objLayer_truthy: "truthy (objLayer h a)"
  by (simp add: objLayer_def js_or_def)

lemma layerMismatch_iff:
  "layerMismatch L h b u =
     (truthy (coalesce (field u ''layerId'') (JStr L)) \<and>
      \<not> strictEq (objLayer h b) (coalesce (field u ''layerId'') (JStr L)))"
  by (simp add: layerMismatch_def Let_def objLayer_truthy)

lemma flushLoop_frame:
  "hooksKeepTransforms E \<Longrightarrow> a \<notin> set (writtenObjects E L pend st) \<Longrightarrow>
   position (heap (snd (snd (flushLoop E L pend n st))) a) = position (heap st a) \<and>
   quaternion (heap (snd (snd (flushLoop E L pend n st))) a) = quaternion (heap st a)"
proof (induction pend arbitrary: n st)
  case Nil
  then show ?case by simp
next
  case (Cons ku pend)
  obtain key u where ku: "ku = (key, u)" by (cases ku)
  obtain r st1 where r: "resolveObject E key st = (r, st1)" by (cases "resolveObject E key st")
  have h1: "heap st1 = heap st" using heap_resolve [of E key st] r by simp
  show ?case
  proof (cases r)
    case None
    then show ?thesis using ku r h1 Cons.IH [OF Cons.prems(1), of st1 n] Cons.prems(2) by simp
  next
    case (Some ob)
    show ?thesis
    proof (cases "layerMismatch L (heap st1) ob u")
      case True
      then show ?thesis
        using ku r Some h1 Cons.IH [OF Cons.prems(1), of st1 n] Cons.prems(2) by simp
    next
      case False
      obtain ex st2 where ap: "applyOneUpdateTo E ob u st1 = (ex, st2)"
        by (cases "applyOneUpdateTo E ob u st1")
      have na: "a \<noteq> applyTarget (heap st1) ob"
        using Cons.prems(2) ku r Some False by auto
      have h2: "position (heap st2 a) = position (heap st a) \<and>
                quaternion (heap st2 a) = quaternion (heap st a)"
        using apply_other [OF Cons.prems(1) na, of u] ap h1 by simp
      show ?thesis
      proof (cases ex)
        case None
        have "a \<notin> set (writtenObjects E L pend st2)"
          using Cons.prems(2) ku r Some False ap None by simp
        then show ?thesis
          using ku r Some False ap None h2 Cons.IH [OF Cons.prems(1), of st2 "Suc n"] by simp
      next
        case (Some e)
        then show ?thesis using ku r \<open>r = Some ob\<close> False ap h2 by simp
      qed
    qed
  qed
qed

lemma flushPending_frame:
  assumes h: "hooksKeepTransforms E"
    and a: "a \<notin> set (writtenObjects E (layerId st) (pending st) st)"
  shows "position (heap (snd (flushPending E st)) a) = position (heap st a) \<and>
         quaternion (heap (snd (flushPending E st)) a) = quaternion (heap st a)"
proof (cases "iso st = None \<or> pending st = []")
  case True
  then show ?thesis by (auto simp: flushPending_def)
next
  case False
  obtain ex k st1 where l: "flushLoop E (layerId st) (pending st) 0 st = (ex, k, st1)"
    by (cases "flushLoop E (layerId st) (pending st) 0 st")
  have f: "position (heap st1 a) = position (heap st a) \<and>
           quaternion (heap st1 a) = quaternion (heap st a)"
    using flushLoop_frame [OF h a, of 0] l by simp
  have c: "\<And>s. position (heap (callIso (renderScene E) s) a) = position (heap s a) \<and>
               quaternion (heap (callIso (renderScene E) s) a) = quaternion (heap s a)"
    using callIso_render [OF h] by simp
  show ?thesis
    using False l f c [of "st1\<lparr>pending := []\<rparr>"]
    by (cases ex) (simp_all add: flushPending_def Let_def heap_log)
qed

text \<open>
  C3, as stated, fails: the object of a skipped update is not always left unchanged by
  the flush. The buffer holds two updates that resolve to the ball: one under its name
  with the layer \<^verbatim>\<open>other\<close>, which mismatches and is skipped, and one under its id with the
  layer of the ball, which is applied. After the flush the ball has moved.
\<close>

theorem layer_mismatch_counterexample:
  "fst (resolveObject testEnv (JStr ''ball'') aliased) = Some 1 \<and>
   layerMismatch (layerId aliased) (heap aliased) 1 otherLayer \<and>
   position (heap aliased 1) = (JNum 0, JNum 0, JNum 0) \<and>
   position (heap (snd (flushPending testEnv aliased)) 1) = (JNum 1, JNum 2, JNum 3)"
  by (simp add: aliased_def eval_defs)

text \<open>
  C3, amended. During \<open>flushPending\<close>, an update whose layer tag mismatches the target
  object is skipped. When the key of a buffered update resolves to an object and the
  effective layer (the update's \<^verbatim>\<open>layerId\<close>, else the component's layer) is non-empty and
  differs from the object's layer tag, \<open>applyOneUpdateTo\<close> is not called for it: the loop
  goes on with the next update, and the update has written to no object. The flush
  leaves the position and the quaternion of an object unchanged when no buffered update
  that passes the guard writes to it, in particular when the skipped update is the only
  one buffered (IsoCard's optional methods are assumed not to move objects). Another
  buffered update that resolves to the same object and passes the guard still moves it.
\<close>

theorem layer_mismatch_skipped:
  "hooksKeepTransforms E \<Longrightarrow> resolveObject E key st = (Some ob, st1) \<Longrightarrow>
   layerMismatch L (heap st1) ob u \<Longrightarrow>
   flushLoop E L ((key, u) # rest) n st = flushLoop E L rest n st1 \<and>
   writtenObjects E L ((key, u) # rest) st = writtenObjects E L rest st1 \<and>
   heap st1 = heap st \<and>
   layerMismatch L h b u =
     (truthy (coalesce (field u ''layerId'') (JStr L)) \<and>
      \<not> strictEq (objLayer h b) (coalesce (field u ''layerId'') (JStr L))) \<and>
   (a \<notin> set (writtenObjects E (layerId s) (pending s) s) \<longrightarrow>
      position (heap (snd (flushPending E s)) a) = position (heap s a) \<and>
      quaternion (heap (snd (flushPending E s)) a) = quaternion (heap s a)) \<and>
   (L = layerId st \<and> pending st = [(key, u)] \<longrightarrow>
      position (heap (snd (flushPending E st)) a) = position (heap st a) \<and>
      quaternion (heap (snd (flushPending E st)) a) = quaternion (heap st a))"
proof -
  assume h: "hooksKeepTransforms E" and r: "resolveObject E key st = (Some ob, st1)"
    and m: "layerMismatch L (heap st1) ob u"
  have 1: "flushLoop E L ((key, u) # rest) n st = flushLoop E L rest n st1"
    using r m by simp
  have 2: "writtenObjects E L ((key, u) # rest) st = writtenObjects E L rest st1"
    using r m by simp
  have 3: "heap st1 = heap st" using heap_resolve [of E key st] r by simp
  have 5: "a \<notin> set (writtenObjects E (layerId s) (pending s) s) \<longrightarrow>
      position (heap (snd (flushPending E s)) a) = position (heap s a) \<and>
      quaternion (heap (snd (flushPending E s)) a) = quaternion (heap s a)"
    using flushPending_frame [OF h] by blast
  have 6: "L = layerId st \<and> pending st = [(key, u)] \<longrightarrow>
      position (heap (snd (flushPending E st)) a) = position (heap st a) \<and>
      quaternion (heap (snd (flushPending E st)) a) = quaternion (heap st a)"
  proof
    assume p: "L = layerId st \<and> pending st = [(key, u)]"
    have "writtenObjects E (layerId st) (pending st) st = []"
      using p r m by simp
    then show "position (heap (snd (flushPending E st)) a) = position (heap st a) \<and>
      quaternion (heap (snd (flushPending E st)) a) = quaternion (heap st a)"
      using flushPending_frame [OF h, of a st] by simp
  qed
  show ?thesis using 1 2 3 5 6 layerMismatch_iff [of L h b u] by blast
qed

theorem layer_mismatch_skipped_witness:
  "hooksKeepTransforms testEnv \<and>
   resolveObject testEnv (JStr ''ball'') skippedOnly =
     (Some 1, skippedOnly\<lparr>objectIndex := [(JStr ''ball'', 1)]\<rparr>) \<and>
   layerMismatch ''server_layer'' (heap skippedOnly) 1 otherLayer \<and>
   ''server_layer'' = layerId skippedOnly \<and> pending skippedOnly = [(JStr ''ball'', otherLayer)] \<and>
   1 \<notin> set (writtenObjects testEnv (layerId skippedOnly) (pending skippedOnly) skippedOnly) \<and>
   position (heap (snd (flushPending testEnv skippedOnly)) 1) = (JNum 0, JNum 0, JNum 0)"
proof -
  have r: "resolveObject testEnv (JStr ''ball'') skippedOnly =
     (Some 1, skippedOnly\<lparr>objectIndex := [(JStr ''ball'', 1)]\<rparr>)"
    by (simp add: skippedOnly_def eval_defs)
  have m: "layerMismatch ''server_layer'' (heap (skippedOnly\<lparr>objectIndex := [(JStr ''ball'', 1)]\<rparr>))
             1 otherLayer"
    by (simp add: skippedOnly_def eval_defs)
  have l: "''server_layer'' = layerId skippedOnly \<and> pending skippedOnly = [(JStr ''ball'', otherLayer)]"
    by (simp add: skippedOnly_def testComp_def)
  have w: "1 \<notin> set (writtenObjects testEnv (layerId skippedOnly) (pending skippedOnly) skippedOnly)"
    using r m l by simp
  have p: "position (heap skippedOnly 1) = (JNum 0, JNum 0, JNum 0)"
    by (simp add: skippedOnly_def eval_defs)
  show ?thesis
    using r m l w p
      layer_mismatch_skipped [OF hooks_test r m, of "[]" 0 testHeap 1 1 skippedOnly] hooks_test
    by simp
qed

subsection \<open>Resolving a key\<close>

lemma find_snoc:
  "find P (xs @ [x]) = (case find P xs of Some y \<Rightarrow> Some y | None \<Rightarrow> if P x then Some x else None)"
  by (induction xs) auto

lemma mapGet_indexNamed:
  "mapGet (indexNamed h a idx) k =
     (if name (h a) \<noteq> [] \<and> JStr (name (h a)) = k then Some a else mapGet idx k)"
  by (auto simp: indexNamed_def mapGet_mapSet strictEq_def sameValueZero_def)

lemma mapGet_fold_indexNamed:
  "mapGet (fold (indexNamed h) scn idx) k =
     (case find (\<lambda>a. name (h a) \<noteq> [] \<and> JStr (name (h a)) = k) (rev scn) of
        Some a \<Rightarrow> Some a
      | None \<Rightarrow> mapGet idx k)"
  by (induction scn arbitrary: idx) (auto simp: find_snoc mapGet_indexNamed split: option.splits)

lemma mapGet_indexEntry:
  "mapGet (indexEntry e idx) k = (if entryKeyed k e then Some (entryObject e) else mapGet idx k)"
  by (auto simp: indexEntry_def entryKeyed_def Let_def mapGet_mapSet)

lemma mapGet_fold_indexEntry:
  "mapGet (fold indexEntry es idx) k =
     (case find (entryKeyed k) (rev es) of
        Some e \<Rightarrow> Some (entryObject e)
      | None \<Rightarrow> mapGet idx k)"
  by (induction es arbitrary: idx) (auto simp: find_snoc mapGet_indexEntry split: option.splits)

lemma objectIndex_log: "objectIndex (log_msg E m st) = objectIndex st"
  by (simp add: log_msg_def)

lemma rebuilt_index:
  "getThreeScene st = Some scn \<Longrightarrow> iso st = Some c \<Longrightarrow>
   mapGet (objectIndex (rebuildObjectIndex E st)) k =
     rebuiltLookup (heap st) scn (case objects c of None \<Rightarrow> [] | Some es \<Rightarrow> es) k"
  by (simp add: rebuildObjectIndex_def Let_def objectIndex_log rebuiltLookup_def
        mapGet_fold_indexEntry mapGet_fold_indexNamed
      split: option.splits)

text \<open>
  C7, as stated, fails: a key that is not cached and not found by name does not always
  make \<open>resolveObject\<close> rebuild the index. When the IsoCard instance exposes no scene,
  \<open>resolveObject\<close> returns nothing and leaves the index as it is, with its other entries;
  a rebuild would have emptied it.
\<close>

theorem resolveObject_no_scene_counterexample:
  "mapGet (objectIndex noScene) (JStr ''box'') = None \<and>
   resolveObject testEnv (JStr ''box'') noScene = (None, noScene) \<and>
   objectIndex noScene = [(JStr ''ball'', 1)] \<and>
   objectIndex (rebuildObjectIndex testEnv noScene) = []"
  by (simp add: noScene_def resolveObject_def rebuildObjectIndex_def getThreeScene_def
        testComp_def testIso_def strictEq_def sameValueZero_def)

text \<open>
  C7, amended. \<open>resolveObject\<close> resolves a key against the index with a fixed chain. It
  returns the cached entry of the key if there is one. Otherwise, when no scene is
  available, it returns nothing and leaves the index untouched. Otherwise, for a string
  key it looks the scene up by the exact name and then by the name without a leading
  \<^verbatim>\<open>server_layer\<close>, and caches a hit under the original key before returning it.
  Otherwise it rebuilds the whole index and returns what the rebuilt index holds for the
  key, possibly nothing: the object of the last entry of the IsoCard object list that
  has the key as its id or as the name of its config, else the last object of the scene
  graph with that (non-empty) name.
\<close>

theorem resolveObject_chain:
  "(mapGet (objectIndex st) k = Some a \<longrightarrow> resolveObject E k st = (Some a, st)) \<and>
   (mapGet (objectIndex st) k = None \<and> getThreeScene st = None \<longrightarrow>
      resolveObject E k st = (None, st)) \<and>
   (mapGet (objectIndex st) k = None \<and> getThreeScene st = Some scn \<and> k = JStr s \<and>
    getObjectByName (heap st) scn s = Some a \<longrightarrow>
      resolveObject E k st = (Some a, st\<lparr>objectIndex := mapSet (objectIndex st) k a\<rparr>)) \<and>
   (mapGet (objectIndex st) k = None \<and> getThreeScene st = Some scn \<and> k = JStr s \<and>
    getObjectByName (heap st) scn s = None \<and>
    getObjectByName (heap st) scn (stripServerLayer s) = Some a \<longrightarrow>
      resolveObject E k st = (Some a, st\<lparr>objectIndex := mapSet (objectIndex st) k a\<rparr>)) \<and>
   (mapGet (objectIndex st) k = None \<and> getThreeScene st = Some scn \<and>
    (\<forall>n. k = JStr n \<longrightarrow> getObjectByName (heap st) scn n = None \<and>
                        getObjectByName (heap st) scn (stripServerLayer n) = None) \<longrightarrow>
      resolveObject E k st =
        (mapGet (objectIndex (rebuildObjectIndex E st)) k, rebuildObjectIndex E st)) \<and>
   (getThreeScene st = Some scn \<and> iso st = Some c \<longrightarrow>
      mapGet (objectIndex (rebuildObjectIndex E st)) k =
        rebuiltLookup (heap st) scn (case objects c of None \<Rightarrow> [] | Some es \<Rightarrow> es) k) \<and>
   mapGet (mapSet (objectIndex st) (JStr s) a) (JStr s) = Some a \<and>
   stripServerLayer (''server_layer'' @ s) = s \<and>
   (take 12 s \<noteq> ''server_layer'' \<longrightarrow> stripServerLayer s = s)"
proof -
  have 1: "mapGet (objectIndex st) k = Some a \<longrightarrow> resolveObject E k st = (Some a, st)"
    by (auto simp: resolveObject_def)
  have 2: "mapGet (objectIndex st) k = None \<and> getThreeScene st = None \<longrightarrow>
      resolveObject E k st = (None, st)"
    by (auto simp: resolveObject_def)
  have 3: "mapGet (objectIndex st) k = None \<and> getThreeScene st = Some scn \<and> k = JStr s \<and>
    getObjectByName (heap st) scn s = Some a \<longrightarrow>
      resolveObject E k st = (Some a, st\<lparr>objectIndex := mapSet (objectIndex st) k a\<rparr>)"
    by (auto simp: resolveObject_def)
  have 4: "mapGet (objectIndex st) k = None \<and> getThreeScene st = Some scn \<and> k = JStr s \<and>
    getObjectByName (heap st) scn s = None \<and>
    getObjectByName (heap st) scn (stripServerLayer s) = Some a \<longrightarrow>
      resolveObject E k st = (Some a, st\<lparr>objectIndex := mapSet (objectIndex st) k a\<rparr>)"
    by (auto simp: resolveObject_def)
  have 5: "mapGet (objectIndex st) k = None \<and> getThreeScene st = Some scn \<and>
    (\<forall>n. k = JStr n \<longrightarrow> getObjectByName (heap st) scn n = None \<and>
                        getObjectByName (heap st) scn (stripServerLayer n) = None) \<longrightarrow>
      resolveObject E k st =
        (mapGet (objectIndex (rebuildObjectIndex E st)) k, rebuildObjectIndex E st)"
    by (cases k) (simp_all add: resolveObject_def Let_def)
  have 6: "getThreeScene st = Some scn \<and> iso st = Some c \<longrightarrow>
      mapGet (objectIndex (rebuildObjectIndex E st)) k =
        rebuiltLookup (heap st) scn (case objects c of None \<Rightarrow> [] | Some es \<Rightarrow> es) k"
    using rebuilt_index [of st scn c E k] by blast
  have 7: "mapGet (mapSet (objectIndex st) (JStr s) a) (JStr s) = Some a"
    by (simp add: mapGet_mapSet strictEq_def sameValueZero_def)
  have 8: "stripServerLayer (''server_layer'' @ s) = s"
    by (simp add: stripServerLayer_def)
  have 9: "take 12 s \<noteq> ''server_layer'' \<longrightarrow> stripServerLayer s = s"
    by (simp add: stripServerLayer_def)
  show ?thesis
    using 1 2 3 4 5 6 7 8 9 by blast
qed

theorem resolveObject_chain_witness:
  "mapGet (objectIndex cachedSeven) (JNum 7) = Some 1 \<and>
   resolveObject testEnv (JNum 7) cachedSeven = (Some 1, cachedSeven) \<and>
   mapGet (objectIndex noScene) (JStr ''box'') = None \<and> getThreeScene noScene = None \<and>
   resolveObject testEnv (JStr ''box'') noScene = (None, noScene) \<and>
   mapGet (objectIndex testComp) (JStr ''ball'') = None \<and> getThreeScene testComp = Some [0, 1] \<and>
   getObjectByName (heap testComp) [0, 1] ''ball'' = Some 1 \<and>
   fst (resolveObject testEnv (JStr ''ball'') testComp) = Some 1 \<and>
   getObjectByName (heap testComp) [0, 1] ''server_layerball'' = None \<and>
   getObjectByName (heap testComp) [0, 1] (stripServerLayer ''server_layerball'') = Some 1 \<and>
   fst (resolveObject testEnv (JStr ''server_layerball'') testComp) = Some 1 \<and>
   getObjectByName (heap testComp) [0, 1] ''box'' = None \<and>
   getObjectByName (heap testComp) [0, 1] (stripServerLayer ''box'') = None \<and>
   iso testComp = Some testIso \<and>
   rebuiltLookup (heap testComp) [0, 1] [ballEntry] (JStr ''box'') = None \<and>
   fst (resolveObject testEnv (JStr ''box'') testComp) = None \<and>
   rebuiltLookup (heap testComp) [0, 1] [ballEntry] (JNum 7) = Some 1 \<and>
   fst (resolveObject testEnv (JNum 7) testComp) = Some 1 \<and>
   take 12 ''box'' \<noteq> ''server_layer''"
proof -
  have c1: "mapGet (objectIndex cachedSeven) (JNum 7) = Some 1"
    by (simp add: cachedSeven_def strictEq_def sameValueZero_def)
  have n1: "mapGet (objectIndex noScene) (JStr ''box'') = None \<and> getThreeScene noScene = None"
    by (simp add: noScene_def getThreeScene_def testIso_def strictEq_def sameValueZero_def)
  have s0: "\<And>k. mapGet (objectIndex testComp) k = None \<and> getThreeScene testComp = Some [0, 1] \<and>
        iso testComp = Some testIso"
    by (simp add: testComp_def getThreeScene_def testIso_def)
  have s1: "getObjectByName (heap testComp) [0, 1] ''ball'' = Some 1"
    by (simp add: getObjectByName_def testComp_def testHeap_def ball_def blank_def)
  have s2: "getObjectByName (heap testComp) [0, 1] ''server_layerball'' = None \<and>
            getObjectByName (heap testComp) [0, 1] (stripServerLayer ''server_layerball'') = Some 1"
    by (simp add: getObjectByName_def stripServerLayer_def testComp_def testHeap_def ball_def
          blank_def)
  have s3: "getObjectByName (heap testComp) [0, 1] ''box'' = None \<and>
            getObjectByName (heap testComp) [0, 1] (stripServerLayer ''box'') = None \<and>
            take 12 ''box'' \<noteq> ''server_layer''"
    by (simp add: getObjectByName_def stripServerLayer_def testComp_def testHeap_def ball_def
          blank_def)
  have l1: "rebuiltLookup (heap testComp) [0, 1] [ballEntry] (JStr ''box'') = None \<and>
            rebuiltLookup (heap testComp) [0, 1] [ballEntry] (JNum 7) = Some 1"
    by (simp add: rebuiltLookup_def entryKeyed_def entryObject_def ballEntry_def strictEq_def sameValueZero_def
          field_def own_def testComp_def testHeap_def ball_def blank_def)
  have o: "objects testIso = Some [ballEntry]" by (simp add: testIso_def)
  show ?thesis
    using c1 n1 s0 s1 s2 s3 l1 o
      resolveObject_chain [of cachedSeven "JNum 7" 1 testEnv]
      resolveObject_chain [of noScene "JStr ''box''" _ testEnv]
      resolveObject_chain [of testComp "JStr ''ball''" 1 testEnv "[0, 1]" "''ball''" testIso]
      resolveObject_chain [of testComp "JStr ''server_layerball''" 1 testEnv "[0, 1]"
        "''server_layerball''" testIso]
      resolveObject_chain [of testComp "JStr ''box''" _ testEnv "[0, 1]" "''box''" testIso]
      resolveObject_chain [of testComp "JNum 7" _ testEnv "[0, 1]" _ testIso]
    by simp
qed

subsection \<open>Message handling\<close>

lemma strictEq_JStr: "strictEq t (JStr s) = (t = JStr s)"
  by (auto simp: strictEq_def)

lemma test_trim:
  "trim testEnv msgError \<noteq> [] \<and> trim testEnv msgTransforms \<noteq> [] \<and>
   trim testEnv msgScene \<noteq> [] \<and> trim testEnv msgPing \<noteq> [] \<and>
   trim testEnv msgUntyped \<noteq> [] \<and> trim testEnv msgOddType \<noteq> [] \<and>
   trim testEnv msgOddError \<noteq> [] \<and> trim testEnv ''null'' \<noteq> [] \<and> trim testEnv ''{'' \<noteq> []"
  by (simp add: testEnv_def msg_defs)

lemma test_parse:
  "JSON_parse testEnv msgError = Inr (JObj [(''type'', JStr ''ERROR''), (''message'', JStr ''boom'')]) \<and>
   JSON_parse testEnv msgTransforms =
     Inr (JObj [(''type'', JStr ''TRANSFORMS''), (''layer'', JStr ''server_layer''),
                (''objects'', JArr [JObj [(''id'', JNum 7),
                                          (''pos'', JArr [JNum 1, JNum 2, JNum 3])]])]) \<and>
   JSON_parse testEnv msgScene =
     Inr (JObj [(''type'', JStr ''SCENE_STATE''),
                (''scene'', JObj [(''name'', JStr ''box''),
                                  (''physics'', JObj [(''mass'', JNum 1)])])]) \<and>
   JSON_parse testEnv msgPing = Inr (JObj [(''type'', JStr ''PING'')]) \<and>
   JSON_parse testEnv msgUntyped = Inr (JObj [(''objects'', JArr [JObj [(''id'', JNum 7)]])]) \<and>
   JSON_parse testEnv msgOddType = Inr (JObj [(''type'', JObj [(''toString'', JNum 1)])]) \<and>
   JSON_parse testEnv msgOddError =
     Inr (JObj [(''type'', JStr ''ERROR''), (''message'', JObj [(''toString'', JNum 1)])]) \<and>
   JSON_parse testEnv ''null'' = Inr JNull \<and>
   JSON_parse testEnv ''{'' = Inl (Exn ''SyntaxError'' ''Unexpected token'')"
  by (simp add: testEnv_def testParse_def msg_defs)

text \<open>
  C4. \<open>onMessage\<close> dispatches on the type of the parsed message. A message of type
  \<^verbatim>\<open>PHYSICS_UPDATE\<close>, \<^verbatim>\<open>PHYSICS_TICK\<close> or \<^verbatim>\<open>TRANSFORMS\<close> is handled in one and the same
  way: its \<^verbatim>\<open>objects\<close>, else its \<^verbatim>\<open>payload\<close>, else its \<^verbatim>\<open>data\<close>, else the message itself,
  is enqueued with the message's \<^verbatim>\<open>layerId\<close>, else its \<^verbatim>\<open>layer\<close>, as the default layer. A
  \<^verbatim>\<open>SCENE_STATE\<close> message has its \<^verbatim>\<open>scene\<close>, else the message itself, ingested. An
  \<^verbatim>\<open>ERROR\<close> message only writes to the log: after the line of its receipt, the server's
  message, or the line \<^verbatim>\<open>Message parse failed\<close> when that message has no string. A message
  without a (truthy) type changes nothing, and a message of any other type only logs its
  receipt, or the line \<^verbatim>\<open>Message parse failed\<close> when the type has no string: neither
  buffers an update nor touches the scene or the index.
\<close>

theorem onMessage_dispatch:
  "trim E txt \<noteq> [] \<Longrightarrow> JSON_parse E txt = Inr msg \<Longrightarrow> \<not> nullish msg \<Longrightarrow>
   t = getProp msg ''type'' \<Longrightarrow> st1 = log_msg E (''Received: '' @ printed E t) st \<Longrightarrow>
   m = coalesce (getProp msg ''message'') (JStr ''(no message)'') \<Longrightarrow>
   (t = JStr ''PHYSICS_UPDATE'' \<or> t = JStr ''PHYSICS_TICK'' \<or> t = JStr ''TRANSFORMS'' \<longrightarrow>
      onMessage E txt st =
        enqueuePhysics
          (coalesce (getProp msg ''objects'')
             (coalesce (getProp msg ''payload'') (coalesce (getProp msg ''data'') msg)))
          (coalesce (getProp msg ''layerId'') (coalesce (getProp msg ''layer'') JUndefined))
          st1) \<and>
   (t = JStr ''SCENE_STATE'' \<longrightarrow>
      onMessage E txt st = handleSceneState E (coalesce (getProp msg ''scene'') msg) st1) \<and>
   (t = JStr ''ERROR'' \<longrightarrow>
      onMessage E txt st =
        (if unprintable m
         then log_msg E (''Message parse failed: '' @ errText (notPrimitive E)) st1
         else log_msg E (''Server error: '' @ printed E m) st1)) \<and>
   (\<not> truthy t \<longrightarrow> onMessage E txt st = st) \<and>
   (truthy t \<and> t \<noteq> JStr ''PHYSICS_UPDATE'' \<and> t \<noteq> JStr ''PHYSICS_TICK'' \<and>
    t \<noteq> JStr ''TRANSFORMS'' \<and> t \<noteq> JStr ''SCENE_STATE'' \<and> t \<noteq> JStr ''ERROR'' \<longrightarrow>
      onMessage E txt st =
        (if unprintable t
         then log_msg E (''Message parse failed: '' @ errText (notPrimitive E)) st
         else st1)) \<and>
   (t \<noteq> JStr ''PHYSICS_UPDATE'' \<and> t \<noteq> JStr ''PHYSICS_TICK'' \<and> t \<noteq> JStr ''TRANSFORMS'' \<and>
    t \<noteq> JStr ''SCENE_STATE'' \<longrightarrow>
      pending (onMessage E txt st) = pending st \<and>
      rafHandle (onMessage E txt st) = rafHandle st \<and>
      frameRequests (onMessage E txt st) = frameRequests st \<and>
      iso (onMessage E txt st) = iso st \<and>
      heap (onMessage E txt st) = heap st \<and>
      objectIndex (onMessage E txt st) = objectIndex st)"
  by (auto simp: onMessage_def Let_def physicsType_def strictEq_JStr log_msg_def toString_def
        parseFailed_def)

theorem onMessage_dispatch_witness:
  "trim testEnv msgTransforms \<noteq> [] \<and> trim testEnv msgScene \<noteq> [] \<and>
   trim testEnv msgError \<noteq> [] \<and> trim testEnv msgUntyped \<noteq> [] \<and> trim testEnv msgPing \<noteq> [] \<and>
   trim testEnv msgOddType \<noteq> [] \<and> trim testEnv msgOddError \<noteq> [] \<and>
   pending (onMessage testEnv msgTransforms testComp) =
     [(JNum 7, [(''id'', JNum 7), (''name'', JUndefined), (''id'', JNum 7),
                (''pos'', JArr [JNum 1, JNum 2, JNum 3]), (''layerId'', JStr ''server_layer'')])] \<and>
   onMessage testEnv msgScene testComp =
     handleSceneState testEnv
       (JObj [(''name'', JStr ''box''), (''physics'', JObj [(''mass'', JNum 1)])])
       (log_msg testEnv ''Received: SCENE_STATE'' testComp) \<and>
   onMessage testEnv msgError testComp =
     log_msg testEnv ''Server error: boom'' (log_msg testEnv ''Received: ERROR'' testComp) \<and>
   onMessage testEnv msgOddError testComp =
     log_msg testEnv ''Message parse failed: Cannot convert object to primitive value''
       (log_msg testEnv ''Received: ERROR'' testComp) \<and>
   onMessage testEnv msgUntyped testComp = testComp \<and>
   onMessage testEnv msgPing testComp = log_msg testEnv ''Received: PING'' testComp \<and>
   pending (onMessage testEnv msgPing testComp) = [] \<and>
   onMessage testEnv msgOddType testComp =
     log_msg testEnv ''Message parse failed: Cannot convert object to primitive value'' testComp"
proof -
  have t: "trim testEnv msgTransforms \<noteq> []" and s: "trim testEnv msgScene \<noteq> []"
    and e: "trim testEnv msgError \<noteq> []" and u: "trim testEnv msgUntyped \<noteq> []"
    and p: "trim testEnv msgPing \<noteq> []" and o: "trim testEnv msgOddType \<noteq> []"
    and oe: "trim testEnv msgOddError \<noteq> []"
    using test_trim by simp_all
  have pt: "JSON_parse testEnv msgTransforms =
     Inr (JObj [(''type'', JStr ''TRANSFORMS''), (''layer'', JStr ''server_layer''),
                (''objects'', JArr [JObj [(''id'', JNum 7),
                                          (''pos'', JArr [JNum 1, JNum 2, JNum 3])]])])"
    and ps: "JSON_parse testEnv msgScene =
     Inr (JObj [(''type'', JStr ''SCENE_STATE''),
                (''scene'', JObj [(''name'', JStr ''box''),
                                  (''physics'', JObj [(''mass'', JNum 1)])])])"
    and pe: "JSON_parse testEnv msgError =
     Inr (JObj [(''type'', JStr ''ERROR''), (''message'', JStr ''boom'')])"
    and pu: "JSON_parse testEnv msgUntyped = Inr (JObj [(''objects'', JArr [JObj [(''id'', JNum 7)]])])"
    and pp: "JSON_parse testEnv msgPing = Inr (JObj [(''type'', JStr ''PING'')])"
    and po: "JSON_parse testEnv msgOddType = Inr (JObj [(''type'', JObj [(''toString'', JNum 1)])])"
    and poe: "JSON_parse testEnv msgOddError =
     Inr (JObj [(''type'', JStr ''ERROR''), (''message'', JObj [(''toString'', JNum 1)])])"
    using test_parse by simp_all
  have n: "\<And>kvs. \<not> nullish (JObj kvs)" by simp
  have x: "errText (notPrimitive testEnv) = ''Cannot convert object to primitive value''"
    by (simp add: errText_def testEnv_def)
  show ?thesis
    using t s e u p o oe x
      onMessage_dispatch [OF t pt n refl refl refl, of testComp]
      onMessage_dispatch [OF s ps n refl refl refl, of testComp]
      onMessage_dispatch [OF e pe n refl refl refl, of testComp]
      onMessage_dispatch [OF oe poe n refl refl refl, of testComp]
      onMessage_dispatch [OF u pu n refl refl refl, of testComp]
      onMessage_dispatch [OF p pp n refl refl refl, of testComp]
      onMessage_dispatch [OF o po n refl refl refl, of testComp]
    by (simp add: field_def own_def coalesce_def enqueuePhysics_def scheduleFlush_def
          pending_scheduleFlush mergeUpdate_def arrayEntry_def Let_def strictEq_def
          sameValueZero_def testComp_def log_msg_def)
qed








lemma iso_removeOne: "iso st \<noteq> None \<Longrightarrow> iso (removeOne E e st) \<noteq> None"
  by (auto simp: removeOne_def split: option.splits prod.splits)

lemma iso_fold_removeOne: "iso st \<noteq> None \<Longrightarrow> iso (fold (removeOne E) es st) \<noteq> None"
proof (induction es arbitrary: st)
  case Nil
  then show ?case by simp
next
  case (Cons e es)
  have "iso (removeOne E e st) \<noteq> None" using Cons.prems by (rule iso_removeOne)
  then have "iso (fold (removeOne E) es (removeOne E e st)) \<noteq> None" by (rule Cons.IH)
  then show ?case by simp
qed

lemma iso_clearLayer: "iso st \<noteq> None \<Longrightarrow> iso (clearLayer E L st) \<noteq> None"
  using iso_fold_removeOne [of st E]
  by (auto simp: clearLayer_def Let_def log_msg_def split: option.splits)









subsection \<open>Scene ingestion\<close>






















subsection \<open>The log\<close>

lemma log_len: "length (log_s (log_msg E m st)) \<le> 400"
  by (simp add: log_msg_def appendLog_def sliceLast_def)

lemma lb_log: "logBounded (log_msg E m st)"
  by (simp add: logBounded_def log_len)

lemma lb_rebuild: "logBounded st \<Longrightarrow> logBounded (rebuildObjectIndex E st)"
  by (auto simp: rebuildObjectIndex_def Let_def log_len logBounded_def split: option.splits)

lemma lb_resolve: "logBounded st \<Longrightarrow> logBounded (snd (resolveObject E k st))"
  using lb_rebuild [of st E]
  by (auto simp: resolveObject_def Let_def logBounded_def split: option.splits jsval.splits)

lemma lb_callIso: "logBounded st \<Longrightarrow> logBounded (callIso f st)"
  by (auto simp: logBounded_def callIso_def split: option.splits prod.splits)

lemma lb_setPosition: "logBounded st \<Longrightarrow> logBounded (setPosition x p st)"
  by (simp add: logBounded_def setPosition_def)

lemma lb_setQuaternion: "logBounded st \<Longrightarrow> logBounded (setQuaternion x q st)"
  by (simp add: logBounded_def setQuaternion_def)

lemma lb_setMatrixFlags: "logBounded st \<Longrightarrow> logBounded (setMatrixFlags x st)"
  by (simp add: logBounded_def setMatrixFlags_def)

lemma lb_apply: "logBounded st \<Longrightarrow> logBounded (snd (applyOneUpdateTo E t u st))"
  unfolding applyOneUpdateTo_def Let_def
  by (auto split: option.splits
        intro!: lb_callIso lb_setMatrixFlags lb_setQuaternion lb_setPosition)

lemma lb_flushLoop: "logBounded st \<Longrightarrow> logBounded (snd (snd (flushLoop E L pend n st)))"
proof (induction pend arbitrary: n st)
  case Nil
  then show ?case by simp
next
  case (Cons ku pend)
  obtain key u where ku: "ku = (key, u)" by (cases ku)
  obtain r st1 where r: "resolveObject E key st = (r, st1)" by (cases "resolveObject E key st")
  have s1: "logBounded st1" using lb_resolve [OF Cons.prems, of E key] r by simp
  show ?case
  proof (cases r)
    case None
    then show ?thesis using ku r Cons.IH [OF s1] by simp
  next
    case (Some ob)
    obtain ex st2 where ap: "applyOneUpdateTo E ob u st1 = (ex, st2)"
      by (cases "applyOneUpdateTo E ob u st1")
    have s2: "logBounded st2" using lb_apply [OF s1, of E ob u] ap by simp
    show ?thesis
      using ku r Some ap s2 Cons.IH [OF s1] Cons.IH [OF s2]
      by (auto split: option.splits)
  qed
qed

lemma lb_flushPending: "logBounded st \<Longrightarrow> logBounded (snd (flushPending E st))"
proof -
  assume b: "logBounded st"
  obtain ex n st1 where l: "flushLoop E (layerId st) (pending st) 0 st = (ex, n, st1)"
    by (cases "flushLoop E (layerId st) (pending st) 0 st")
  have s1: "logBounded st1" using lb_flushLoop [OF b, of E "layerId st" "pending st" 0] l by simp
  have s2: "logBounded (callIso (renderScene E) (st1\<lparr>pending := []\<rparr>))"
    using s1 by (intro lb_callIso) (simp add: logBounded_def)
  show ?thesis
    using b l s1 s2 by (cases ex) (auto simp: flushPending_def Let_def lb_log)
qed

lemma lb_runCallbacks: "logBounded st \<Longrightarrow> logBounded (snd (runCallbacks E hs st))"
proof (induction hs arbitrary: st)
  case Nil
  then show ?case by simp
next
  case (Cons h hs)
  obtain ex st1 where c: "rafCallback E st = (ex, st1)" by (cases "rafCallback E st")
  have "logBounded (st\<lparr>rafHandle := None\<rparr>)" using Cons.prems by (simp add: logBounded_def)
  then have s1: "logBounded st1"
    using lb_flushPending [of "st\<lparr>rafHandle := None\<rparr>" E] c by (simp add: rafCallback_def)
  obtain exs st2 where r: "runCallbacks E hs st1 = (exs, st2)" by (cases "runCallbacks E hs st1")
  show ?case using c r Cons.IH [OF s1] by simp
qed

lemma lb_animationFrame: "logBounded st \<Longrightarrow> logBounded (snd (animationFrame E st))"
proof -
  assume "logBounded st"
  then have "logBounded (st\<lparr>frameRequests := []\<rparr>)" by (simp add: logBounded_def)
  then show ?thesis unfolding animationFrame_def by (rule lb_runCallbacks)
qed

lemma lb_enqueue: "logBounded st \<Longrightarrow> logBounded (enqueuePhysics objs d st)"
  by (cases objs)
     (auto simp: enqueuePhysics_def scheduleFlush_def logBounded_def split: option.splits)

lemma lb_removeOne: "logBounded st \<Longrightarrow> logBounded (removeOne E e st)"
  by (auto simp: removeOne_def logBounded_def split: option.splits prod.splits)

lemma lb_fold_removeOne: "logBounded st \<Longrightarrow> logBounded (fold (removeOne E) es st)"
proof (induction es arbitrary: st)
  case Nil
  then show ?case by simp
next
  case (Cons e es)
  have "logBounded (removeOne E e st)" using Cons.prems by (rule lb_removeOne)
  then have "logBounded (fold (removeOne E) es (removeOne E e st))" by (rule Cons.IH)
  then show ?case by simp
qed

lemma lb_handleSceneState: "logBounded (handleSceneState E d st)"
  by (auto simp: handleSceneState_def ingestPayload_def Let_def lb_log
           split: option.splits prod.splits sum.splits)

lemma lb_onMessage: "logBounded st \<Longrightarrow> logBounded (onMessage E txt st)"
  by (auto simp: onMessage_def parseFailed_def Let_def lb_log lb_handleSceneState lb_enqueue
           split: sum.splits)

text \<open>
  C8. The on-screen log is bounded and append-only. A call of \<open>log\<close> appends one line, the
  timestamp followed by the separator and the message, and keeps the most recent 400
  entries: the new log has at most 400 lines, and it is a suffix of the old log,
  unchanged and in the same order, followed by the new line. The component writes to
  the log through \<open>log\<close> only, so a log of at most 400 lines stays so through every
  message, every enqueued batch, every scene load and every animation frame.
\<close>

theorem log_bounded_append_only:
  "log_s (log_msg E m st) = sliceLast 400 (log_s st @ [toISOString E (clock st) @ emDash @ m]) \<and>
   length (log_s (log_msg E m st)) \<le> 400 \<and>
   log_s (log_msg E m st) =
     drop (Suc (length (log_s st)) - 400) (log_s st) @ [toISOString E (clock st) @ emDash @ m] \<and>
   (length (log_s st) \<le> 400 \<longrightarrow>
      length (log_s (onMessage E dat st)) \<le> 400 \<and>
      length (log_s (enqueuePhysics objs d st)) \<le> 400 \<and>
      length (log_s (handleSceneState E sceneData st)) \<le> 400 \<and>
      length (log_s (snd (flushPending E st))) \<le> 400 \<and>
      length (log_s (snd (animationFrame E st))) \<le> 400)"
proof -
  have a: "log_s (log_msg E m st) =
      sliceLast 400 (log_s st @ [toISOString E (clock st) @ emDash @ m]) \<and>
    length (log_s (log_msg E m st)) \<le> 400 \<and>
    log_s (log_msg E m st) =
      drop (Suc (length (log_s st)) - 400) (log_s st) @ [toISOString E (clock st) @ emDash @ m]"
    by (simp add: log_msg_def appendLog_def logLine_def sliceLast_def)
  have b: "logBounded st \<longrightarrow>
      logBounded (onMessage E dat st) \<and> logBounded (enqueuePhysics objs d st) \<and>
      logBounded (handleSceneState E sceneData st) \<and> logBounded (snd (flushPending E st)) \<and>
      logBounded (snd (animationFrame E st))"
    using lb_onMessage lb_enqueue lb_handleSceneState lb_flushPending lb_animationFrame
    by blast
  show ?thesis
    using a b unfolding logBounded_def by blast
qed

theorem log_bounded_append_only_witness:
  "length (log_s testComp) \<le> 400 \<and>
   log_s (log_msg testEnv ''hello'' testComp) = [toISOString testEnv 0 @ emDash @ ''hello''] \<and>
   length (log_s (onMessage testEnv msgError testComp)) \<le> 400 \<and>
   length (log_s (snd (animationFrame testEnv queued))) \<le> 400"
proof -
  have l: "length (log_s testComp) \<le> 400" and q: "length (log_s queued) \<le> 400"
    by (simp_all add: testComp_def queued_def)
  have c: "log_s testComp = [] \<and> clock testComp = 0" by (simp add: testComp_def)
  show ?thesis
    using l q c
      log_bounded_append_only [where E = testEnv and st = testComp and m = "''hello''"
        and dat = msgError]
      log_bounded_append_only [where E = testEnv and st = queued]
    by (simp add: sliceLast_def)
qed

end
